theory Spec2Isabelle
  imports Complex_Main "HOL-Library.Sublist"
begin

section \<open>Numbers, strings and the rendering library\<close>

text \<open>
  The viewer computes with JavaScript numbers. They are modelled as real numbers: the
  identities below are those of the arithmetic the code writes down, without rounding.
  Division by zero (\<open>Infinity\<close> or \<open>NaN\<close> in JavaScript) is excluded by hypothesis
  wherever a quotient matters. Strings are lists of 8-bit characters.

  The rendering library is not part of the repository. A document handle, a page handle
  and a page's text content are therefore records of the operations the code calls on
  them; a rejected promise is the value \<open>None\<close>.
\<close>

record viewport =
  vp_width :: real
  vp_height :: real

text \<open>The six numbers of a text run's affine transform, \<open>transform[0]\<close> to \<open>transform[5]\<close>.\<close>

record affine =
  t0 :: real
  t1 :: real
  t2 :: real
  t3 :: real
  t4 :: real
  t5 :: real

record text_item =
  str :: string
  transform :: affine

text \<open>
  \<open>getViewport pg s r\<close> is \<open>page.getViewport({scale: s, rotation: r})\<close>; the rotation is
  \<open>None\<close> where the call passes none (or passes \<open>undefined\<close>).
\<close>

record page_handle =
  getViewport :: "real \<Rightarrow> real option \<Rightarrow> viewport"
  getTextContent :: "text_item list option"

record pdf_document =
  getPage :: "int \<Rightarrow> page_handle option"

section \<open>Text extraction (AreaSelectionTool.tsx, extractTextFromArea)\<close>

record text_area =
  area_x :: real
  area_y :: real
  area_width :: real
  area_height :: real
  area_page :: int

text \<open>\<open>String.prototype.trim\<close> on 8-bit characters: tab, LF, VT, FF, CR, space, NBSP.\<close>

definition is_whitespace :: "char \<Rightarrow> bool" where
  "is_whitespace c \<longleftrightarrow> c \<in> set [CHR 0x09, CHR 0x0A, CHR 0x0B, CHR 0x0C, CHR 0x0D, CHR 0x20, CHR 0xA0]"

definition trim :: "string \<Rightarrow> string" where
  "trim s = rev (dropWhile is_whitespace (rev (dropWhile is_whitespace s)))"

text \<open>The body of the \<open>forEach\<close> over \<open>textContent.items\<close>, with the source's local names.\<close>

definition forEach_body :: "text_area \<Rightarrow> string \<Rightarrow> text_item \<Rightarrow> string" where
  "forEach_body area extractedText item =
    (let tr = transform item;
         textX = t4 tr;
         textY = t5 tr;
         fontSize = sqrt (t0 tr * t0 tr + t1 tr * t1 tr);
         textWidth = real (length (str item)) * fontSize * 0.5;
         textHeight = fontSize;
         textLeft = textX;
         textRight = textX + textWidth;
         textBottom = textY;
         textTop = textY + textHeight;
         areaLeft = area_x area;
         areaRight = area_x area + area_width area;
         areaBottom = area_y area;
         areaTop = area_y area + area_height area;
         horizontalOverlap = (textRight > areaLeft \<and> textLeft < areaRight);
         verticalOverlap = (textTop > areaBottom \<and> textBottom < areaTop)
     in if horizontalOverlap \<and> verticalOverlap
        then extractedText @ str item @ '' ''
        else extractedText)"

primrec items_forEach :: "text_area \<Rightarrow> string \<Rightarrow> text_item list \<Rightarrow> string" where
  "items_forEach area extractedText [] = extractedText"
| "items_forEach area extractedText (item # items) =
     items_forEach area (forEach_body area extractedText item) items"

definition extractTextFromArea :: "pdf_document option \<Rightarrow> text_area \<Rightarrow> string" where
  "extractTextFromArea pdfDoc area =
    (case pdfDoc of
       None \<Rightarrow> ''''
     | Some doc \<Rightarrow>
        (case getPage doc (area_page area) of
           None \<Rightarrow> ''Error extracting text''
         | Some pg \<Rightarrow>
            (case getTextContent pg of
               None \<Rightarrow> ''Error extracting text''
             | Some items \<Rightarrow>
                (let extractedText = items_forEach area '''' items;
                     trimmed = trim extractedText
                 in if trimmed = '''' then ''No text detected in selected area'' else trimmed))))"

subsection \<open>The matching policy as the specification words it\<close>

record box =
  box_left :: real
  box_right :: real
  box_bottom :: real
  box_top :: real

text \<open>The scale component of a run's transform.\<close>

definition run_fontSize :: "text_item \<Rightarrow> real" where
  "run_fontSize item = sqrt ((t0 (transform item))\<^sup>2 + (t1 (transform item))\<^sup>2)"

text \<open>\<open>[x, x + stringLength * fontSize * 0.5] \<times> [y, y + fontSize]\<close>\<close>

definition run_box :: "text_item \<Rightarrow> box" where
  "run_box item =
    \<lparr>box_left = t4 (transform item),
     box_right = t4 (transform item) + real (length (str item)) * run_fontSize item * 0.5,
     box_bottom = t5 (transform item),
     box_top = t5 (transform item) + run_fontSize item\<rparr>"

definition target_box :: "text_area \<Rightarrow> box" where
  "target_box area =
    \<lparr>box_left = area_x area,
     box_right = area_x area + area_width area,
     box_bottom = area_y area,
     box_top = area_y area + area_height area\<rparr>"

definition overlaps :: "box \<Rightarrow> box \<Rightarrow> bool" where
  "overlaps run rect \<longleftrightarrow>
     box_right run > box_left rect \<and> box_left run < box_right rect \<and>
     box_top run > box_bottom rect \<and> box_bottom run < box_top rect"

fun space_joined :: "string list \<Rightarrow> string" where
  "space_joined [] = ''''"
| "space_joined [s] = s"
| "space_joined (s # t) = s @ '' '' @ space_joined t"

definition overlapping_runs :: "text_area \<Rightarrow> text_item list \<Rightarrow> text_item list" where
  "overlapping_runs area items = filter (\<lambda>item. overlaps (run_box item) (target_box area)) items"

section \<open>The selection gesture (AreaSelectionTool.tsx)\<close>

record pos =
  pos_x :: real
  pos_y :: real

record rect =
  rect_x :: real
  rect_y :: real
  rect_width :: real
  rect_height :: real

text \<open>
  The page canvas as far as the handlers read it: the size of its backing store, its
  bounding client rectangle, and the pixels of a region encoded as a data URL.
\<close>

record canvas =
  canvas_width :: real
  canvas_height :: real
  bounding_left :: real
  bounding_top :: real
  bounding_width :: real
  bounding_height :: real
  region_dataURL :: "rect \<Rightarrow> string"

record area_position =
  pdfX :: real
  pdfY :: real
  pdfWidth :: real
  pdfHeight :: real
  page :: int
  canvasX :: "real option"
  canvasY :: "real option"
  canvasWidth :: "real option"
  canvasHeight :: "real option"

record SelectedArea =
  area_id :: string
  area_text :: string
  screenshot :: string
  position :: area_position
  timestamp :: nat

text \<open>The props of the component; \<open>rotation\<close> is \<open>None\<close> when the parent passes none.\<close>

record tool_props =
  canvasRef :: "canvas option"
  pdfDoc :: "pdf_document option"
  currentPage :: int
  scale :: real
  rotation :: "real option"
  isSelectionMode :: bool

record tool_state =
  isSelecting :: bool
  startPos :: "pos option"
  currentPos :: "pos option"

text \<open>
  What a pointer-up reads from outside the component: whether a fresh canvas element
  yields a 2d context, the two readings of \<open>Date.now()\<close>, and the nine characters
  taken from \<open>Math.random().toString(36)\<close>.
\<close>

record environment =
  temp_context :: bool
  date_now_id :: nat
  random_suffix :: string
  date_now_stamp :: nat

fun decimal :: "nat \<Rightarrow> string" where
  "decimal n =
     (if n < 10 then [char_of (48 + n)]
      else decimal (n div 10) @ [char_of (48 + n mod 10)])"

definition getCanvasCoordinates :: "canvas option \<Rightarrow> real \<Rightarrow> real \<Rightarrow> pos" where
  "getCanvasCoordinates cref clientX clientY =
    (case cref of
       None \<Rightarrow> \<lparr>pos_x = 0, pos_y = 0\<rparr>
     | Some cv \<Rightarrow>
        \<lparr>pos_x = (clientX - bounding_left cv) * (canvas_width cv / bounding_width cv),
         pos_y = (clientY - bounding_top cv) * (canvas_height cv / bounding_height cv)\<rparr>)"

definition handleMouseDown :: "tool_props \<Rightarrow> real \<Rightarrow> real \<Rightarrow> tool_state \<Rightarrow> tool_state" where
  "handleMouseDown props clientX clientY st =
    (if \<not> isSelectionMode props \<or> canvasRef props = None then st
     else let coords = getCanvasCoordinates (canvasRef props) clientX clientY
          in st\<lparr>startPos := Some coords, currentPos := Some coords, isSelecting := True\<rparr>)"

definition handleMouseMove :: "tool_props \<Rightarrow> real \<Rightarrow> real \<Rightarrow> tool_state \<Rightarrow> tool_state" where
  "handleMouseMove props clientX clientY st =
    (if \<not> isSelecting st \<or> startPos st = None then st
     else st\<lparr>currentPos := Some (getCanvasCoordinates (canvasRef props) clientX clientY)\<rparr>)"

definition captureScreenshot :: "canvas option \<Rightarrow> environment \<Rightarrow> rect \<Rightarrow> string" where
  "captureScreenshot cref env area =
    (case cref of
       None \<Rightarrow> ''''
     | Some cv \<Rightarrow> if \<not> temp_context env then '''' else region_dataURL cv area)"

text \<open>The drag's bounding box in canvas pixels (lines 247 to 250).\<close>

definition drag_rect :: "pos \<Rightarrow> pos \<Rightarrow> rect" where
  "drag_rect sp cp =
    \<lparr>rect_x = min (pos_x sp) (pos_x cp),
     rect_y = min (pos_y sp) (pos_y cp),
     rect_width = \<bar>pos_x cp - pos_x sp\<bar>,
     rect_height = \<bar>pos_y cp - pos_y sp\<bar>\<rparr>"

text \<open>The conversion from canvas pixels to the stored position (lines 267 to 270, 285 to 297).\<close>

definition toPdfPosition :: "viewport \<Rightarrow> viewport \<Rightarrow> rect \<Rightarrow> int \<Rightarrow> area_position" where
  "toPdfPosition pdfViewport canvasViewport r pg =
    \<lparr>pdfX = (rect_x r / vp_width canvasViewport) * vp_width pdfViewport,
     pdfY = (rect_y r / vp_height canvasViewport) * vp_height pdfViewport,
     pdfWidth = (rect_width r / vp_width canvasViewport) * vp_width pdfViewport,
     pdfHeight = (rect_height r / vp_height canvasViewport) * vp_height pdfViewport,
     page = pg,
     canvasX = Some (rect_x r),
     canvasY = Some (rect_y r),
     canvasWidth = Some (rect_width r),
     canvasHeight = Some (rect_height r)\<rparr>"

text \<open>The rectangle handed to \<open>extractTextFromArea\<close> (lines 273 to 279).\<close>

definition extraction_area :: "viewport \<Rightarrow> area_position \<Rightarrow> text_area" where
  "extraction_area pdfViewport p =
    \<lparr>area_x = pdfX p,
     area_y = vp_height pdfViewport - pdfY p - pdfHeight p,
     area_width = pdfWidth p,
     area_height = pdfHeight p,
     area_page = page p\<rparr>"

definition reset :: "tool_state \<Rightarrow> tool_state" where
  "reset st = st\<lparr>isSelecting := False, startPos := None, currentPos := None\<rparr>"

text \<open>
  \<open>handleMouseUp\<close> returns the new gesture state and the area passed to
  \<open>onAreaSelected\<close>, if any. A rejected \<open>getPage\<close> is caught by the handler's own
  \<open>try\<close>; the early \<open>return\<close> for a missing document leaves the gesture state as it is.
\<close>

definition handleMouseUp ::
  "tool_props \<Rightarrow> environment \<Rightarrow> tool_state \<Rightarrow> tool_state \<times> SelectedArea option" where
  "handleMouseUp props env st =
    (case (isSelecting st, startPos st, currentPos st, canvasRef props) of
       (True, Some sp, Some cp, Some cv) \<Rightarrow>
         (let r = drag_rect sp cp in
          if rect_width r > 10 \<and> rect_height r > 10 then
            (let shot = captureScreenshot (canvasRef props) env r in
             case pdfDoc props of
               None \<Rightarrow> (st, None)
             | Some doc \<Rightarrow>
                (case getPage doc (currentPage props) of
                   None \<Rightarrow> (reset st, None)
                 | Some pg \<Rightarrow>
                    (let pdfViewport = getViewport pg 1 None;
                         canvasViewport = getViewport pg (scale props) (rotation props);
                         p = toPdfPosition pdfViewport canvasViewport r (currentPage props);
                         txt = extractTextFromArea (pdfDoc props) (extraction_area pdfViewport p);
                         selectedArea =
                           \<lparr>area_id = ''area-'' @ decimal (date_now_id env) @ ''-'' @ random_suffix env,
                            area_text = (if txt = '''' then ''No text detected in selected area'' else txt),
                            screenshot = shot,
                            position = p,
                            timestamp = date_now_stamp env\<rparr>
                     in (reset st, Some selectedArea))))
          else (reset st, None))
     | _ \<Rightarrow> (reset st, None))"

text \<open>
  The handler is asynchronous. Up to its first \<open>await\<close> it runs at once: the guard, the
  bounding box, the gate, the screenshot and the check for a document. What follows the
  awaits (the conversion, the text, the emission and the final reset of the gesture state)
  runs later, on the values the handler had captured; other events can come in between.
  \<open>handleMouseUp\<close> above is the handler run to its end with nothing in between.
\<close>

record pending =
  pend_doc :: pdf_document
  pend_page :: int
  pend_scale :: real
  pend_rotation :: "real option"
  pend_rect :: rect
  pend_screenshot :: string

definition handleMouseUp_begin ::
  "tool_props \<Rightarrow> environment \<Rightarrow> tool_state \<Rightarrow> tool_state \<times> pending option" where
  "handleMouseUp_begin props env st =
    (case (isSelecting st, startPos st, currentPos st, canvasRef props) of
       (True, Some sp, Some cp, Some cv) \<Rightarrow>
         (let r = drag_rect sp cp in
          if rect_width r > 10 \<and> rect_height r > 10 then
            (let shot = captureScreenshot (canvasRef props) env r in
             case pdfDoc props of
               None \<Rightarrow> (st, None)
             | Some doc \<Rightarrow>
                 (st, Some \<lparr>pend_doc = doc, pend_page = currentPage props,
                            pend_scale = scale props, pend_rotation = rotation props,
                            pend_rect = r, pend_screenshot = shot\<rparr>))
          else (reset st, None))
     | _ \<Rightarrow> (reset st, None))"

definition handleMouseUp_finish ::
  "environment \<Rightarrow> pending \<Rightarrow> tool_state \<Rightarrow> tool_state \<times> SelectedArea option" where
  "handleMouseUp_finish env pend st =
    (case getPage (pend_doc pend) (pend_page pend) of
       None \<Rightarrow> (reset st, None)
     | Some pg \<Rightarrow>
        (let pdfViewport = getViewport pg 1 None;
             canvasViewport = getViewport pg (pend_scale pend) (pend_rotation pend);
             p = toPdfPosition pdfViewport canvasViewport (pend_rect pend) (pend_page pend);
             txt = extractTextFromArea (Some (pend_doc pend)) (extraction_area pdfViewport p);
             selectedArea =
               \<lparr>area_id = ''area-'' @ decimal (date_now_id env) @ ''-'' @ random_suffix env,
                area_text = (if txt = '''' then ''No text detected in selected area'' else txt),
                screenshot = pend_screenshot pend,
                position = p,
                timestamp = date_now_stamp env\<rparr>
         in (reset st, Some selectedArea)))"

section \<open>The viewer (index.ts, PDFViewer) and the list (SelectedAreasList.tsx)\<close>

text \<open>
  The state of the viewer that the marking code reads. \<open>selectionCanvasRef\<close> is the
  overlay canvas, if mounted, with whether it yields a 2d context.
\<close>

record viewer =
  file_chosen :: bool
  loading :: bool
  error_text :: string
  viewer_pdfDoc :: "pdf_document option"
  pageNumber :: int
  viewer_scale :: real
  selectedAreas :: "SelectedArea list"
  viewer_isSelectionMode :: bool
  highlightedArea :: "SelectedArea option"
  viewer_canvasRef :: "canvas option"
  selectionCanvasRef :: "bool option"

text \<open>The props the viewer passes to the tool (lines 545 to 556): no rotation among them.\<close>

definition props_of :: "viewer \<Rightarrow> tool_props" where
  "props_of v =
    \<lparr>canvasRef = viewer_canvasRef v,
     pdfDoc = viewer_pdfDoc v,
     currentPage = pageNumber v,
     scale = viewer_scale v,
     rotation = None,
     isSelectionMode = viewer_isSelectionMode v\<rparr>"

definition handleAreaSelected :: "SelectedArea \<Rightarrow> viewer \<Rightarrow> viewer" where
  "handleAreaSelected area v = v\<lparr>selectedAreas := selectedAreas v @ [area]\<rparr>"

definition handleAreaHighlight :: "SelectedArea option \<Rightarrow> viewer \<Rightarrow> viewer" where
  "handleAreaHighlight area v = v\<lparr>highlightedArea := area\<rparr>"

definition handleAreaRemove :: "string \<Rightarrow> viewer \<Rightarrow> viewer" where
  "handleAreaRemove areaId v =
     v\<lparr>selectedAreas := filter (\<lambda>area. area_id area \<noteq> areaId) (selectedAreas v)\<rparr>"

definition handleClearAllAreas :: "viewer \<Rightarrow> viewer" where
  "handleClearAllAreas v = v\<lparr>selectedAreas := []\<rparr>"

text \<open>The list's own handlers, which call the viewer's through its props.\<close>

definition list_handleAreaClick :: "SelectedArea \<Rightarrow> viewer \<Rightarrow> viewer" where
  "list_handleAreaClick area v = handleAreaHighlight (Some area) v"

definition list_handleAreaRemove :: "string \<Rightarrow> viewer \<Rightarrow> viewer" where
  "list_handleAreaRemove areaId v =
    (let v' = handleAreaRemove areaId v
     in case highlightedArea v of
          None \<Rightarrow> v'
        | Some h \<Rightarrow> if area_id h = areaId then handleAreaHighlight None v' else v')"

definition list_handleClearAll :: "viewer \<Rightarrow> viewer" where
  "list_handleClearAll v = handleAreaHighlight None (handleClearAllAreas v)"

subsection \<open>The overlay redraw (drawSelectionBoxes)\<close>

text \<open>What the redraw does to the overlay's 2d context, in order.\<close>

datatype draw_op =
    ClearRect real real real real
  | StrokeRect string nat "nat list" rect
  | FillRect string rect

text \<open>The conversion from a stored position to canvas pixels (lines 239 to 242).\<close>

definition toCanvasRect :: "viewport \<Rightarrow> viewport \<Rightarrow> area_position \<Rightarrow> rect" where
  "toCanvasRect pdfViewport currentViewport p =
    \<lparr>rect_x = (pdfX p / vp_width pdfViewport) * vp_width currentViewport,
     rect_y = (pdfY p / vp_height pdfViewport) * vp_height currentViewport,
     rect_width = (pdfWidth p / vp_width pdfViewport) * vp_width currentViewport,
     rect_height = (pdfHeight p / vp_height pdfViewport) * vp_height currentViewport\<rparr>"

definition draw_area ::
  "viewport \<Rightarrow> viewport \<Rightarrow> SelectedArea option \<Rightarrow> SelectedArea \<Rightarrow> draw_op list" where
  "draw_area pdfViewport currentViewport highlighted area =
    (let r = toCanvasRect pdfViewport currentViewport (position area);
         isHighlighted = (case highlighted of None \<Rightarrow> False | Some h \<Rightarrow> area_id h = area_id area)
     in [StrokeRect ''#0078d4'' (if isHighlighted then 3 else 2) (if isHighlighted then [5, 5] else []) r,
         FillRect (if isHighlighted then ''rgba(0, 120, 212, 0.3)'' else ''rgba(0, 120, 212, 0.1)'') r])"

primrec areas_forEach ::
  "viewport \<Rightarrow> viewport \<Rightarrow> SelectedArea option \<Rightarrow> draw_op list \<Rightarrow> SelectedArea list \<Rightarrow> draw_op list" where
  "areas_forEach pdfViewport currentViewport highlighted ops [] = ops"
| "areas_forEach pdfViewport currentViewport highlighted ops (area # areas) =
     areas_forEach pdfViewport currentViewport highlighted
       (ops @ draw_area pdfViewport currentViewport highlighted area) areas"

text \<open>
  The effect that redraws the overlay. \<open>None\<close>: the overlay is left as it was (a missing
  canvas, context or document, or a rejected \<open>getPage\<close>, which the effect catches).
\<close>

definition drawSelectionBoxes :: "viewer \<Rightarrow> draw_op list option" where
  "drawSelectionBoxes v =
    (case (viewer_canvasRef v, selectionCanvasRef v, viewer_pdfDoc v) of
       (Some mainCanvas, Some ctx_ok, Some doc) \<Rightarrow>
         (if \<not> ctx_ok then None
          else case getPage doc (pageNumber v) of
                 None \<Rightarrow> None
               | Some pg \<Rightarrow>
                  (let pdfViewport = getViewport pg 1 None;
                       currentViewport = getViewport pg (viewer_scale v) None;
                       cleared = [ClearRect 0 0 (canvas_width mainCanvas) (canvas_height mainCanvas)];
                       currentPageAreas =
                         filter (\<lambda>area. page (position area) = pageNumber v) (selectedAreas v)
                   in if length currentPageAreas = 0 then Some cleared
                      else Some (areas_forEach pdfViewport currentViewport (highlightedArea v)
                                   cleared currentPageAreas)))
     | _ \<Rightarrow> None)"

text \<open>The rectangles a list of operations strokes, in order.\<close>

fun stroked :: "draw_op list \<Rightarrow> rect list" where
  "stroked [] = []"
| "stroked (StrokeRect style lw dash r # ops) = r # stroked ops"
| "stroked (op # ops) = stroked ops"

fun filled :: "draw_op list \<Rightarrow> rect list" where
  "filled [] = []"
| "filled (FillRect style r # ops) = r # filled ops"
| "filled (op # ops) = filled ops"

subsection \<open>Pointer events and the selection-mode toggle\<close>

text \<open>
  The system is the viewer, the tool's gesture state and the handlers that have reached
  their awaits and not yet finished, oldest first.
\<close>

record system =
  view :: viewer
  tool :: tool_state
  in_flight :: "pending list"

text \<open>\<open>Settle\<close>: the awaits of the oldest unfinished handler resolve and it runs to its end.\<close>

datatype event =
    MouseDown real real
  | MouseMove real real
  | MouseUp
  | MouseLeave
  | ToggleSelectionMode
  | Settle

text \<open>
  The element that receives the pointer events is rendered only in selection mode, inside
  the branches for a chosen file and a loaded document (lines 506, 662 and 685).
\<close>

definition overlay_mounted :: "viewer \<Rightarrow> bool" where
  "overlay_mounted v \<longleftrightarrow>
     file_chosen v \<and> \<not> loading v \<and> error_text v = '''' \<and> viewer_pdfDoc v \<noteq> None \<and>
     viewer_isSelectionMode v"

definition pointer_up :: "environment \<Rightarrow> system \<Rightarrow> system" where
  "pointer_up env s =
    (if \<not> overlay_mounted (view s) then s
     else case handleMouseUp_begin (props_of (view s)) env (tool s) of
            (st, None) \<Rightarrow> s\<lparr>tool := st\<rparr>
          | (st, Some pend) \<Rightarrow> s\<lparr>tool := st, in_flight := in_flight s @ [pend]\<rparr>)"

definition settle :: "environment \<Rightarrow> system \<Rightarrow> system \<times> SelectedArea option" where
  "settle env s =
    (case in_flight s of
       [] \<Rightarrow> (s, None)
     | pend # rest \<Rightarrow>
        (case handleMouseUp_finish env pend (tool s) of
           (st, None) \<Rightarrow> (s\<lparr>tool := st, in_flight := rest\<rparr>, None)
         | (st, Some area) \<Rightarrow>
             (s\<lparr>tool := st, in_flight := rest, view := handleAreaSelected area (view s)\<rparr>,
              Some area)))"

fun step :: "environment \<Rightarrow> system \<Rightarrow> event \<Rightarrow> system \<times> SelectedArea option" where
  "step env s (MouseDown x y) =
     (if overlay_mounted (view s)
      then (s\<lparr>tool := handleMouseDown (props_of (view s)) x y (tool s)\<rparr>, None)
      else (s, None))"
| "step env s (MouseMove x y) =
     (if overlay_mounted (view s)
      then (s\<lparr>tool := handleMouseMove (props_of (view s)) x y (tool s)\<rparr>, None)
      else (s, None))"
| "step env s MouseUp = (pointer_up env s, None)"
| "step env s MouseLeave = (pointer_up env s, None)"
| "step env s ToggleSelectionMode =
     (s\<lparr>view := (view s)\<lparr>viewer_isSelectionMode := \<not> viewer_isSelectionMode (view s)\<rparr>\<rparr>, None)"
| "step env s Settle = settle env s"

text \<open>A run of events, with the areas emitted on the way.\<close>

fun run :: "environment \<Rightarrow> system \<Rightarrow> event list \<Rightarrow> system \<times> SelectedArea list" where
  "run env s [] = (s, [])"
| "run env s (e # es) =
     (case step env s e of
        (s', emitted) \<Rightarrow>
          (case run env s' es of
             (s'', rest) \<Rightarrow> (s'', (case emitted of None \<Rightarrow> [] | Some a \<Rightarrow> [a]) @ rest)))"

declare decimal.simps [simp del]

subsection \<open>The Y flip as the specification words it\<close>

definition flipY :: "real \<Rightarrow> real \<Rightarrow> real \<Rightarrow> real" where
  "flipY viewportHeight y h = viewportHeight - y - h"

subsection \<open>The two conversions in rounded arithmetic\<close>

text \<open>
  The conversions of \<open>handleMouseUp\<close> (lines 267 to 270) and of \<open>drawSelectionBoxes\<close>
  (lines 239 to 242) once more, with every quotient and every product rounded by
  \<open>rnd\<close>, as double arithmetic rounds them. With the identity for \<open>rnd\<close> they are
  \<open>toPdfPosition\<close> and \<open>toCanvasRect\<close>.
\<close>

definition toPdfPosition_fl ::
  "(real \<Rightarrow> real) \<Rightarrow> viewport \<Rightarrow> viewport \<Rightarrow> rect \<Rightarrow> int \<Rightarrow> area_position" where
  "toPdfPosition_fl rnd pdfViewport canvasViewport r pg =
    \<lparr>pdfX = rnd (rnd (rect_x r / vp_width canvasViewport) * vp_width pdfViewport),
     pdfY = rnd (rnd (rect_y r / vp_height canvasViewport) * vp_height pdfViewport),
     pdfWidth = rnd (rnd (rect_width r / vp_width canvasViewport) * vp_width pdfViewport),
     pdfHeight = rnd (rnd (rect_height r / vp_height canvasViewport) * vp_height pdfViewport),
     page = pg,
     canvasX = Some (rect_x r),
     canvasY = Some (rect_y r),
     canvasWidth = Some (rect_width r),
     canvasHeight = Some (rect_height r)\<rparr>"

definition toCanvasRect_fl ::
  "(real \<Rightarrow> real) \<Rightarrow> viewport \<Rightarrow> viewport \<Rightarrow> area_position \<Rightarrow> rect" where
  "toCanvasRect_fl rnd pdfViewport currentViewport p =
    \<lparr>rect_x = rnd (rnd (pdfX p / vp_width pdfViewport) * vp_width currentViewport),
     rect_y = rnd (rnd (pdfY p / vp_height pdfViewport) * vp_height currentViewport),
     rect_width = rnd (rnd (pdfWidth p / vp_width pdfViewport) * vp_width currentViewport),
     rect_height = rnd (rnd (pdfHeight p / vp_height pdfViewport) * vp_height currentViewport)\<rparr>"

text \<open>Each side of \<open>r'\<close> is within the relative tolerance \<open>tol\<close> of the same side of \<open>r\<close>.\<close>

definition within_tolerance :: "real \<Rightarrow> rect \<Rightarrow> rect \<Rightarrow> bool" where
  "within_tolerance tol r r' \<longleftrightarrow>
     \<bar>rect_x r' - rect_x r\<bar> \<le> tol * \<bar>rect_x r\<bar> \<and>
     \<bar>rect_y r' - rect_y r\<bar> \<le> tol * \<bar>rect_y r\<bar> \<and>
     \<bar>rect_width r' - rect_width r\<bar> \<le> tol * \<bar>rect_width r\<bar> \<and>
     \<bar>rect_height r' - rect_height r\<bar> \<le> tol * \<bar>rect_height r\<bar>"

section \<open>Concrete documents, canvases and gestures\<close>

text \<open>
  A page handle as the rendering library builds it for an unrotated page of \<open>w\<close> by \<open>h\<close>
  points: the viewport is the page size times the scale, with the sides exchanged for a
  rotation by a quarter turn.
\<close>

definition library_page :: "real \<Rightarrow> real \<Rightarrow> text_item list option \<Rightarrow> page_handle" where
  "library_page w h content =
    \<lparr>getViewport = (\<lambda>s r. if r = Some 90 \<or> r = Some 270
                           then \<lparr>vp_width = h * s, vp_height = w * s\<rparr>
                           else \<lparr>vp_width = w * s, vp_height = h * s\<rparr>),
     getTextContent = content\<rparr>"

definition text_run :: "string \<Rightarrow> real \<Rightarrow> real \<Rightarrow> real \<Rightarrow> text_item" where
  "text_run s fs x y = \<lparr>str = s, transform = \<lparr>t0 = fs, t1 = 0, t2 = 0, t3 = fs, t4 = x, t5 = y\<rparr>\<rparr>"

definition sample_items :: "text_item list" where
  "sample_items = [text_run ''Hello'' 12 100 700, text_run ''big'' 12 300 400, text_run ''World'' 12 100 690]"

definition single_page_doc :: "page_handle \<Rightarrow> pdf_document" where
  "single_page_doc pg = \<lparr>getPage = (\<lambda>n. if n = 1 then Some pg else None)\<rparr>"

definition sample_doc :: pdf_document where
  "sample_doc = single_page_doc (library_page 600 800 (Some sample_items))"

definition unreadable_doc :: pdf_document where
  "unreadable_doc = single_page_doc (library_page 600 800 None)"

definition failing_doc :: pdf_document where
  "failing_doc = \<lparr>getPage = (\<lambda>n. None)\<rparr>"

definition sample_canvas :: canvas where
  "sample_canvas =
    \<lparr>canvas_width = 600, canvas_height = 800,
     bounding_left = 0, bounding_top = 0, bounding_width = 600, bounding_height = 800,
     region_dataURL = (\<lambda>r. ''data:image/png;base64,iVBORw0KGgo='')\<rparr>"

definition sample_env :: environment where
  "sample_env =
    \<lparr>temp_context = True, date_now_id = 1700000000000, random_suffix = ''k3j9x0q2a'',
     date_now_stamp = 1700000000001\<rparr>"

definition sample_props :: "pdf_document option \<Rightarrow> real \<Rightarrow> real option \<Rightarrow> tool_props" where
  "sample_props doc s rot =
    \<lparr>canvasRef = Some sample_canvas, pdfDoc = doc, currentPage = 1, scale = s,
     rotation = rot, isSelectionMode = True\<rparr>"

definition idle :: tool_state where
  "idle = \<lparr>isSelecting = False, startPos = None, currentPos = None\<rparr>"

definition dragging :: "real \<Rightarrow> real \<Rightarrow> real \<Rightarrow> real \<Rightarrow> tool_state" where
  "dragging x0 y0 x1 y1 =
    \<lparr>isSelecting = True, startPos = Some \<lparr>pos_x = x0, pos_y = y0\<rparr>,
     currentPos = Some \<lparr>pos_x = x1, pos_y = y1\<rparr>\<rparr>"

definition sample_area :: "string \<Rightarrow> int \<Rightarrow> SelectedArea" where
  "sample_area i pg =
    \<lparr>area_id = i, area_text = ''Hello'', screenshot = ''data:image/png;base64,iVBORw0KGgo='',
     position = \<lparr>pdfX = 60, pdfY = 80, pdfWidth = 120, pdfHeight = 40, page = pg,
                 canvasX = Some 60, canvasY = Some 80, canvasWidth = Some 120, canvasHeight = Some 40\<rparr>,
     timestamp = 1700000000001\<rparr>"

definition sample_viewer :: viewer where
  "sample_viewer =
    \<lparr>file_chosen = True, loading = False, error_text = '''',
     viewer_pdfDoc = Some sample_doc, pageNumber = 1, viewer_scale = 1,
     selectedAreas = [], viewer_isSelectionMode = True, highlightedArea = None,
     viewer_canvasRef = Some sample_canvas, selectionCanvasRef = Some True\<rparr>"

definition sample_system :: system where
  "sample_system = \<lparr>view = sample_viewer, tool = idle, in_flight = []\<rparr>"

text \<open>
  A canvas of 1200 by 1600 pixels shown at 600 by 800, ten pixels from the left and twenty
  from the top of the window: one client pixel is two canvas pixels.
\<close>

definition dense_canvas :: canvas where
  "dense_canvas =
    \<lparr>canvas_width = 1200, canvas_height = 1600,
     bounding_left = 10, bounding_top = 20, bounding_width = 600, bounding_height = 800,
     region_dataURL = (\<lambda>r. ''data:image/png;base64,iVBORw0KGgo='')\<rparr>"

text \<open>A rounding that is off by one part in 1024, always upwards in magnitude.\<close>

definition coarse_rounding :: "real \<Rightarrow> real" where
  "coarse_rounding x = x * (1 + 1 / 1024)"

section \<open>The list's actions and the highlight\<close>

text \<open>
  What can change the area list or the highlight: the tool emitting an area, a click on
  the \<open>i\<close>-th rendered item, an item's remove button, and the clear-all button.
\<close>

datatype list_action =
    AreaSelected SelectedArea
  | AreaClick nat
  | AreaRemove string
  | ClearAll

fun act :: "viewer \<Rightarrow> list_action \<Rightarrow> viewer" where
  "act v (AreaSelected area) = handleAreaSelected area v"
| "act v (AreaClick i) =
     (if i < length (selectedAreas v) then list_handleAreaClick (selectedAreas v ! i) v else v)"
| "act v (AreaRemove areaId) = list_handleAreaRemove areaId v"
| "act v ClearAll = list_handleClearAll v"

text \<open>The highlight, if any, is one of the listed areas.\<close>

definition highlight_in_list :: "viewer \<Rightarrow> bool" where
  "highlight_in_list v =
    (case highlightedArea v of None \<Rightarrow> True | Some h \<Rightarrow> h \<in> set (selectedAreas v))"

section \<open>Text matching: the loop and the policy\<close>

lemma forEach_body_eq:
  "forEach_body area acc item =
     (if overlaps (run_box item) (target_box area) then acc @ str item @ '' '' else acc)"
  by (simp add: forEach_body_def overlaps_def run_box_def target_box_def run_fontSize_def
      power2_eq_square Let_def)

lemma items_forEach_eq:
  "items_forEach area acc items =
     acc @ concat (map (\<lambda>item. str item @ '' '') (overlapping_runs area items))"
  by (induction items arbitrary: acc) (simp_all add: forEach_body_eq overlapping_runs_def)

lemma concat_space_joined:
  "xs \<noteq> [] \<Longrightarrow> concat (map (\<lambda>s. s @ '' '') xs) = space_joined xs @ '' ''"
  by (induction xs rule: space_joined.induct) simp_all

lemma is_whitespace_space: "is_whitespace CHR '' ''"
  by (simp add: is_whitespace_def)

lemma trim_snoc_space: "trim (s @ '' '') = trim s"
proof (cases "\<forall>c \<in> set s. is_whitespace c")
  case True
  then have a: "dropWhile is_whitespace s = []" by simp
  have "\<forall>c \<in> set (s @ '' ''). is_whitespace c"
    using True is_whitespace_space by simp
  then have b: "dropWhile is_whitespace (s @ '' '') = []"
    by (simp only: dropWhile_eq_Nil_conv)
  show ?thesis unfolding trim_def a b ..
next
  case False
  then obtain c where "c \<in> set s" and "\<not> is_whitespace c" by blast
  then have "dropWhile is_whitespace (s @ '' '') = dropWhile is_whitespace s @ '' ''"
    by (rule dropWhile_append1)
  then show ?thesis by (simp add: trim_def is_whitespace_space)
qed

lemma trim_Nil: "trim [] = []"
  by (simp add: trim_def)

lemma trim_unchanged:
  assumes "s \<noteq> []" and "\<not> is_whitespace (hd s)" and "\<not> is_whitespace (last s)"
  shows "trim s = s"
proof (cases s rule: rev_cases)
  case Nil
  with assms(1) show ?thesis by simp
next
  case (snoc ys y)
  have a: "dropWhile is_whitespace s = s"
    using assms(1,2) by (cases s) simp_all
  have b: "dropWhile is_whitespace (rev s) = rev s"
    using snoc assms(3) by simp
  show ?thesis unfolding trim_def a b by simp
qed

lemma extract_loaded:
  assumes "getPage doc (area_page area) = Some pg" and "getTextContent pg = Some items"
  shows "extractTextFromArea (Some doc) area =
     (let joined = trim (space_joined (map str (overlapping_runs area items)))
      in if joined = '''' then ''No text detected in selected area'' else joined)"
proof (cases "overlapping_runs area items = []")
  case True
  then show ?thesis using assms
    by (simp add: extractTextFromArea_def items_forEach_eq trim_Nil)
next
  case False
  then have "concat (map (\<lambda>item. str item @ '' '') (overlapping_runs area items))
     = space_joined (map str (overlapping_runs area items)) @ '' ''"
    using concat_space_joined[of "map str (overlapping_runs area items)"]
    by (simp add: comp_def)
  then show ?thesis using assms
    by (simp add: extractTextFromArea_def items_forEach_eq trim_snoc_space Let_def)
qed

lemma run_fontSize_text_run: "run_fontSize (text_run s fs x y) = \<bar>fs\<bar>"
  by (simp add: run_fontSize_def text_run_def)

lemma run_box_text_run:
  "run_box (text_run s fs x y) =
     \<lparr>box_left = x, box_right = x + real (length s) * \<bar>fs\<bar> * 0.5, box_bottom = y, box_top = y + \<bar>fs\<bar>\<rparr>"
  by (simp add: run_box_def run_fontSize_text_run) (simp add: text_run_def)

lemma str_text_run: "str (text_run s fs x y) = s"
  by (simp add: text_run_def)

lemma sample_overlapping:
  "overlapping_runs \<lparr>area_x = 90, area_y = 695, area_width = 20, area_height = 10, area_page = 1\<rparr> sample_items
     = [text_run ''Hello'' 12 100 700, text_run ''World'' 12 100 690]"
  by (simp add: overlapping_runs_def sample_items_def run_box_text_run overlaps_def target_box_def)

text \<open>
  Claim C5. When the document is loaded and the page's text content is read, and no run's
  estimated box overlaps the target rectangle, text matching returns the sentinel
  \<open>No text detected in selected area\<close>, which is not the empty string. (The result is a
  string by type: there is no null.)
\<close>

theorem no_overlap_sentinel:
  assumes "getPage doc (area_page area) = Some pg" and "getTextContent pg = Some items"
    and "\<forall>item \<in> set items. \<not> overlaps (run_box item) (target_box area)"
  shows "extractTextFromArea (Some doc) area = ''No text detected in selected area'' \<and>
         extractTextFromArea (Some doc) area \<noteq> ''''"
proof -
  have "overlapping_runs area items = []"
    using assms(3) by (simp add: overlapping_runs_def filter_empty_conv)
  then have "items_forEach area '''' items = ''''"
    by (simp add: items_forEach_eq)
  then have "extractTextFromArea (Some doc) area = ''No text detected in selected area''"
    using assms(1,2) by (simp add: extractTextFromArea_def trim_Nil)
  then show ?thesis by simp
qed

text \<open>Three runs near the top and the middle of the page, a target in the bottom-left corner.\<close>

theorem no_overlap_sentinel_witness:
  "extractTextFromArea (Some sample_doc)
     \<lparr>area_x = 0, area_y = 0, area_width = 50, area_height = 50, area_page = 1\<rparr>
   = ''No text detected in selected area''"
  using no_overlap_sentinel[of sample_doc
      "\<lparr>area_x = 0, area_y = 0, area_width = 50, area_height = 50, area_page = 1\<rparr>"
      "library_page 600 800 (Some sample_items)" sample_items]
  by (simp add: sample_doc_def single_page_doc_def library_page_def sample_items_def
      run_box_text_run overlaps_def target_box_def)

text \<open>
  Claim C6. The loop of \<open>extractTextFromArea\<close> appends a run's string exactly when the box
  \<open>[x, x + length * fontSize * 0.5] \<times> [y, y + fontSize]\<close> overlaps the target rectangle
  (\<open>overlapping_runs\<close> keeps the run order), so the result is the space-joined text of the
  overlapping runs, trimmed at both ends, or the sentinel when that is empty. Where the
  joined text is not empty and neither starts nor ends with white space, the result is the
  joined text itself.
\<close>

theorem matcher_overlap_policy:
  assumes "getPage doc (area_page area) = Some pg" and "getTextContent pg = Some items"
  shows "(let joined = space_joined (map str (overlapping_runs area items)) in
           extractTextFromArea (Some doc) area =
             (if trim joined = '''' then ''No text detected in selected area'' else trim joined) \<and>
           (joined \<noteq> '''' \<and> \<not> is_whitespace (hd joined) \<and> \<not> is_whitespace (last joined)
              \<longrightarrow> extractTextFromArea (Some doc) area = joined))"
proof -
  define joined where "joined = space_joined (map str (overlapping_runs area items))"
  have a: "extractTextFromArea (Some doc) area =
           (if trim joined = '''' then ''No text detected in selected area'' else trim joined)"
    using extract_loaded[OF assms(1,2)] by (simp add: joined_def Let_def)
  have "extractTextFromArea (Some doc) area = joined"
    if "joined \<noteq> ''''" and "\<not> is_whitespace (hd joined)" and "\<not> is_whitespace (last joined)"
    using that by (simp add: a trim_unchanged)
  with a show ?thesis unfolding Let_def joined_def by blast
qed

text \<open>
  A target that cuts through \<open>Hello\<close> and \<open>World\<close> without containing either, and
  misses \<open>big\<close>.
\<close>

theorem matcher_overlap_policy_witness:
  "extractTextFromArea (Some sample_doc)
     \<lparr>area_x = 90, area_y = 695, area_width = 20, area_height = 10, area_page = 1\<rparr> = ''Hello World''"
  using matcher_overlap_policy[of sample_doc
      "\<lparr>area_x = 90, area_y = 695, area_width = 20, area_height = 10, area_page = 1\<rparr>"
      "library_page 600 800 (Some sample_items)" sample_items]
  by (simp add: sample_doc_def single_page_doc_def library_page_def sample_overlapping
      str_text_run trim_def is_whitespace_def)

section \<open>The area list and the highlight\<close>

lemma count_list_filter:
  "count_list (filter P xs) a = (if P a then count_list xs a else 0)"
  by (induction xs) auto

text \<open>
  Claim C10. Adding an area appends it at the end of the list and leaves every existing
  element where it was. Removing by an id keeps exactly the elements with another id:
  the result is a subsequence of the list (relative order kept), and every element with
  another id occurs in it as often as before.
\<close>

theorem area_list_frame:
  "selectedAreas (handleAreaSelected area v) = selectedAreas v @ [area] \<and>
   (\<forall>i < length (selectedAreas v).
      selectedAreas (handleAreaSelected area v) ! i = selectedAreas v ! i) \<and>
   selectedAreas (handleAreaRemove areaId v) =
      filter (\<lambda>a. area_id a \<noteq> areaId) (selectedAreas v) \<and>
   set (selectedAreas (handleAreaRemove areaId v)) =
      {a \<in> set (selectedAreas v). area_id a \<noteq> areaId} \<and>
   subseq (selectedAreas (handleAreaRemove areaId v)) (selectedAreas v) \<and>
   (\<forall>a. area_id a \<noteq> areaId \<longrightarrow>
      count_list (selectedAreas (handleAreaRemove areaId v)) a = count_list (selectedAreas v) a)"
  by (simp add: handleAreaSelected_def handleAreaRemove_def nth_append count_list_filter)

text \<open>Two areas share the id \<open>a\<close>; removing \<open>a\<close> deletes both and keeps \<open>b\<close>.\<close>

theorem area_list_frame_witness:
  "selectedAreas (handleAreaRemove ''a''
      (handleAreaSelected (sample_area ''a'' 2)
         (sample_viewer\<lparr>selectedAreas := [sample_area ''a'' 1, sample_area ''b'' 1]\<rparr>)))
   = [sample_area ''b'' 1]"
  using area_list_frame[of "sample_area ''a'' 2"
      "sample_viewer\<lparr>selectedAreas := [sample_area ''a'' 1, sample_area ''b'' 1]\<rparr>" "''a''"]
    area_list_frame[of "sample_area ''a'' 2"
      "handleAreaSelected (sample_area ''a'' 2)
         (sample_viewer\<lparr>selectedAreas := [sample_area ''a'' 1, sample_area ''b'' 1]\<rparr>)" "''a''"]
  by (simp add: sample_area_def)

lemma act_keeps_highlight: "highlight_in_list v \<Longrightarrow> highlight_in_list (act v a)"
proof (cases a)
  case (AreaSelected area)
  assume "highlight_in_list v"
  then show ?thesis using AreaSelected
    by (auto simp: highlight_in_list_def handleAreaSelected_def split: option.splits)
next
  case (AreaClick i)
  assume "highlight_in_list v"
  then show ?thesis using AreaClick
    by (auto simp: highlight_in_list_def list_handleAreaClick_def handleAreaHighlight_def
        split: option.splits)
next
  case (AreaRemove areaId)
  assume "highlight_in_list v"
  then show ?thesis using AreaRemove
    by (auto simp: Let_def highlight_in_list_def list_handleAreaRemove_def handleAreaRemove_def
        handleAreaHighlight_def split: option.splits)
next
  case ClearAll
  then show ?thesis
    by (simp add: highlight_in_list_def list_handleClearAll_def handleAreaHighlight_def)
qed

lemma actions_keep_highlight:
  "highlight_in_list v \<Longrightarrow> highlight_in_list (foldl act v actions)"
  by (induction actions arbitrary: v) (simp_all add: act_keeps_highlight)

text \<open>
  Claim C9. Starting from a state whose highlight (if any) is a listed area, every
  sequence of list actions leads to such a state: the highlight refers to at most one
  area, and that area is in the list. For every state: removing the highlighted area's id
  clears the highlight, removing any other id leaves the highlight as it is, and clearing
  all areas empties the list and clears the highlight.
\<close>

theorem highlight_consistency:
  assumes "highlight_in_list v0"
  shows "highlight_in_list (foldl act v0 actions) \<and>
     (\<forall>v h. highlightedArea v = Some h \<longrightarrow>
        highlightedArea (list_handleAreaRemove (area_id h) v) = None) \<and>
     (\<forall>v areaId. (\<forall>h. highlightedArea v = Some h \<longrightarrow> area_id h \<noteq> areaId) \<longrightarrow>
        highlightedArea (list_handleAreaRemove areaId v) = highlightedArea v) \<and>
     (\<forall>v. highlightedArea (list_handleClearAll v) = None \<and>
          selectedAreas (list_handleClearAll v) = [])"
proof -
  have "highlight_in_list (foldl act v0 actions)"
    using assms by (rule actions_keep_highlight)
  moreover have "highlightedArea (list_handleAreaRemove (area_id h) v) = None"
    if "highlightedArea v = Some h" for h v
    using that
    by (simp add: Let_def list_handleAreaRemove_def handleAreaRemove_def handleAreaHighlight_def)
  moreover have "highlightedArea (list_handleAreaRemove areaId v) = highlightedArea v"
    if "\<forall>h. highlightedArea v = Some h \<longrightarrow> area_id h \<noteq> areaId" for areaId v
    using that
    by (simp add: Let_def list_handleAreaRemove_def handleAreaRemove_def handleAreaHighlight_def
        split: option.splits)
  moreover have "highlightedArea (list_handleClearAll v) = None \<and>
      selectedAreas (list_handleClearAll v) = []" for v
    by (simp add: list_handleClearAll_def handleClearAllAreas_def handleAreaHighlight_def)
  ultimately show ?thesis by blast
qed

text \<open>Two areas are added, the first is clicked, the second removed, then the first.\<close>

lemma sample_actions:
  "foldl act sample_viewer
     [AreaSelected (sample_area ''a'' 1), AreaSelected (sample_area ''b'' 2), AreaClick 0,
      AreaRemove ''b'']
   = sample_viewer\<lparr>selectedAreas := [sample_area ''a'' 1],
                    highlightedArea := Some (sample_area ''a'' 1)\<rparr>"
  by (simp add: sample_viewer_def handleAreaSelected_def list_handleAreaClick_def
      handleAreaHighlight_def list_handleAreaRemove_def handleAreaRemove_def sample_area_def)

theorem highlight_consistency_witness:
  "highlight_in_list sample_viewer \<and>
   highlightedArea (foldl act sample_viewer
     [AreaSelected (sample_area ''a'' 1), AreaSelected (sample_area ''b'' 2), AreaClick 0,
      AreaRemove ''b'']) = Some (sample_area ''a'' 1) \<and>
   highlightedArea (list_handleAreaRemove ''a'' (foldl act sample_viewer
     [AreaSelected (sample_area ''a'' 1), AreaSelected (sample_area ''b'' 2), AreaClick 0,
      AreaRemove ''b''])) = None"
proof -
  define v where "v = foldl act sample_viewer
     [AreaSelected (sample_area ''a'' 1), AreaSelected (sample_area ''b'' 2), AreaClick 0,
      AreaRemove ''b'']"
  have inv: "highlight_in_list sample_viewer"
    by (simp add: highlight_in_list_def sample_viewer_def)
  have h: "highlightedArea v = Some (sample_area ''a'' 1)"
    unfolding v_def sample_actions by simp
  have i: "area_id (sample_area ''a'' 1) = ''a''"
    by (simp add: sample_area_def)
  have "\<forall>w h. highlightedArea w = Some h \<longrightarrow>
          highlightedArea (list_handleAreaRemove (area_id h) w) = None"
    using highlight_consistency[OF inv] by blast
  then have "highlightedArea (list_handleAreaRemove (area_id (sample_area ''a'' 1)) v) = None"
    using h by blast
  then show ?thesis
    using inv h unfolding i v_def by blast
qed

section \<open>The overlay redraw\<close>

lemma areas_forEach_eq:
  "areas_forEach pv cur h ops areas = ops @ concat (map (draw_area pv cur h) areas)"
  by (induction areas arbitrary: ops) simp_all

lemma stroked_append: "stroked (xs @ ys) = stroked xs @ stroked ys"
  by (induction xs rule: stroked.induct) simp_all

lemma filled_append: "filled (xs @ ys) = filled xs @ filled ys"
  by (induction xs rule: filled.induct) simp_all

lemma stroked_draw:
  "stroked (concat (map (draw_area pv cur h) areas)) = map (\<lambda>a. toCanvasRect pv cur (position a)) areas"
  by (induction areas) (simp_all add: draw_area_def Let_def)

lemma filled_draw:
  "filled (concat (map (draw_area pv cur h) areas)) = map (\<lambda>a. toCanvasRect pv cur (position a)) areas"
  by (induction areas) (simp_all add: draw_area_def Let_def)

lemma drawSelectionBoxes_ops:
  assumes "viewer_canvasRef v = Some mainCanvas" and "selectionCanvasRef v = Some True"
    and "viewer_pdfDoc v = Some doc" and "getPage doc (pageNumber v) = Some pg"
  shows "drawSelectionBoxes v =
     Some (ClearRect 0 0 (canvas_width mainCanvas) (canvas_height mainCanvas) #
           concat (map (draw_area (getViewport pg 1 None) (getViewport pg (viewer_scale v) None)
                          (highlightedArea v))
                       (filter (\<lambda>a. page (position a) = pageNumber v) (selectedAreas v))))"
  using assms
  by (cases "filter (\<lambda>a. page (position a) = pageNumber v) (selectedAreas v) = []")
    (simp_all add: drawSelectionBoxes_def Let_def areas_forEach_eq)

text \<open>
  Claim C7. With both canvases, the overlay's context and the page available, a redraw
  clears the overlay and then strokes and fills one rectangle for each area whose
  \<open>position.page\<close> is the current page, in list order, and nothing else: areas of
  other pages contribute no operation.
\<close>

theorem overlay_page_filter:
  assumes "viewer_canvasRef v = Some mainCanvas" and "selectionCanvasRef v = Some True"
    and "viewer_pdfDoc v = Some doc" and "getPage doc (pageNumber v) = Some pg"
  shows "(let pv = getViewport pg 1 None;
              cur = getViewport pg (viewer_scale v) None;
              currentPageAreas = filter (\<lambda>a. page (position a) = pageNumber v) (selectedAreas v)
          in \<exists>ops. drawSelectionBoxes v = Some ops \<and>
               ops = ClearRect 0 0 (canvas_width mainCanvas) (canvas_height mainCanvas) #
                       concat (map (draw_area pv cur (highlightedArea v)) currentPageAreas) \<and>
               stroked ops = map (\<lambda>a. toCanvasRect pv cur (position a)) currentPageAreas \<and>
               filled ops = map (\<lambda>a. toCanvasRect pv cur (position a)) currentPageAreas)"
proof -
  define pv where "pv = getViewport pg 1 None"
  define cur where "cur = getViewport pg (viewer_scale v) None"
  define cpa where "cpa = filter (\<lambda>a. page (position a) = pageNumber v) (selectedAreas v)"
  define ops where "ops = ClearRect 0 0 (canvas_width mainCanvas) (canvas_height mainCanvas) #
                       concat (map (draw_area pv cur (highlightedArea v)) cpa)"
  have "drawSelectionBoxes v = Some ops"
    using assms
    by (cases "cpa = []")
      (simp_all add: drawSelectionBoxes_def Let_def areas_forEach_eq ops_def pv_def cur_def cpa_def)
  moreover have "stroked ops = map (\<lambda>a. toCanvasRect pv cur (position a)) cpa"
    by (simp add: ops_def stroked_draw)
  moreover have "filled ops = map (\<lambda>a. toCanvasRect pv cur (position a)) cpa"
    by (simp add: ops_def filled_draw)
  ultimately show ?thesis
    unfolding Let_def pv_def cur_def cpa_def ops_def by blast
qed

text \<open>Three areas, the second on page 2; page 1 is shown at scale 2.\<close>

theorem overlay_page_filter_witness:
  "map_option stroked (drawSelectionBoxes
      (sample_viewer\<lparr>pageNumber := 1, viewer_scale := 2,
         selectedAreas := [sample_area ''a'' 1, sample_area ''b'' 2, sample_area ''c'' 1]\<rparr>))
   = Some [\<lparr>rect_x = 120, rect_y = 160, rect_width = 240, rect_height = 80\<rparr>,
           \<lparr>rect_x = 120, rect_y = 160, rect_width = 240, rect_height = 80\<rparr>]"
proof -
  define v where "v = sample_viewer\<lparr>pageNumber := 1, viewer_scale := 2,
         selectedAreas := [sample_area ''a'' 1, sample_area ''b'' 2, sample_area ''c'' 1]\<rparr>"
  define pg where "pg = library_page 600 800 (Some sample_items)"
  have a: "viewer_canvasRef v = Some sample_canvas" "selectionCanvasRef v = Some True"
    "viewer_pdfDoc v = Some sample_doc" "getPage sample_doc (pageNumber v) = Some pg"
    by (simp_all add: v_def pg_def sample_viewer_def sample_doc_def single_page_doc_def)
  have f: "filter (\<lambda>a. page (position a) = pageNumber v) (selectedAreas v)
      = [sample_area ''a'' 1, sample_area ''c'' 1]"
    by (simp add: v_def sample_area_def)
  have r: "toCanvasRect (getViewport pg 1 None) (getViewport pg (viewer_scale v) None)
             (position (sample_area i 1))
           = \<lparr>rect_x = 120, rect_y = 160, rect_width = 240, rect_height = 80\<rparr>" for i
    by (simp add: v_def pg_def library_page_def toCanvasRect_def sample_area_def)
  obtain ops where "drawSelectionBoxes v = Some ops"
    and "stroked ops = map (\<lambda>a. toCanvasRect (getViewport pg 1 None)
                (getViewport pg (viewer_scale v) None) (position a))
              (filter (\<lambda>a. page (position a) = pageNumber v) (selectedAreas v))"
    using overlay_page_filter[OF a] unfolding Let_def by blast
  then show ?thesis
    unfolding v_def[symmetric] by (simp add: f r)
qed

section \<open>Completing a gesture\<close>

lemma handleMouseUp_not_dragging:
  assumes "\<not> isSelecting st \<or> startPos st = None \<or> currentPos st = None \<or> canvasRef props = None"
  shows "handleMouseUp props env st = (reset st, None)"
  using assms
  by (auto simp: handleMouseUp_def split: bool.splits option.splits)

lemma handleMouseUp_small:
  assumes "isSelecting st" and "startPos st = Some sp" and "currentPos st = Some cp"
    and "canvasRef props = Some cv"
    and "\<not> (rect_width (drag_rect sp cp) > 10 \<and> rect_height (drag_rect sp cp) > 10)"
  shows "handleMouseUp props env st = (reset st, None)"
  using assms by (auto simp: handleMouseUp_def Let_def)

lemma handleMouseUp_no_doc:
  assumes "isSelecting st" and "startPos st = Some sp" and "currentPos st = Some cp"
    and "canvasRef props = Some cv"
    and "rect_width (drag_rect sp cp) > 10" and "rect_height (drag_rect sp cp) > 10"
    and "pdfDoc props = None"
  shows "handleMouseUp props env st = (st, None)"
  using assms by (simp add: handleMouseUp_def Let_def)

lemma handleMouseUp_no_page:
  assumes "isSelecting st" and "startPos st = Some sp" and "currentPos st = Some cp"
    and "canvasRef props = Some cv"
    and "rect_width (drag_rect sp cp) > 10" and "rect_height (drag_rect sp cp) > 10"
    and "pdfDoc props = Some doc" and "getPage doc (currentPage props) = None"
  shows "handleMouseUp props env st = (reset st, None)"
  using assms by (simp add: handleMouseUp_def Let_def)

lemma handleMouseUp_emit:
  assumes "isSelecting st" and "startPos st = Some sp" and "currentPos st = Some cp"
    and "canvasRef props = Some cv"
    and "rect_width (drag_rect sp cp) > 10" and "rect_height (drag_rect sp cp) > 10"
    and "pdfDoc props = Some doc" and "getPage doc (currentPage props) = Some pg"
  shows "handleMouseUp props env st =
     (reset st,
      Some \<lparr>area_id = ''area-'' @ decimal (date_now_id env) @ ''-'' @ random_suffix env,
            area_text =
              (if extractTextFromArea (Some doc)
                    (extraction_area (getViewport pg 1 None)
                       (toPdfPosition (getViewport pg 1 None)
                          (getViewport pg (scale props) (rotation props))
                          (drag_rect sp cp) (currentPage props))) = ''''
               then ''No text detected in selected area''
               else extractTextFromArea (Some doc)
                    (extraction_area (getViewport pg 1 None)
                       (toPdfPosition (getViewport pg 1 None)
                          (getViewport pg (scale props) (rotation props))
                          (drag_rect sp cp) (currentPage props)))),
            screenshot = captureScreenshot (Some cv) env (drag_rect sp cp),
            position = toPdfPosition (getViewport pg 1 None)
                          (getViewport pg (scale props) (rotation props))
                          (drag_rect sp cp) (currentPage props),
            timestamp = date_now_stamp env\<rparr>)"
  using assms by (simp add: handleMouseUp_def Let_def)

lemma extract_nonempty:
  "extractTextFromArea (Some doc) area \<noteq> ''''"
  by (simp add: extractTextFromArea_def Let_def split: option.splits)

lemma extract_unreadable:
  "getPage doc (area_page area) = Some pg \<Longrightarrow> getTextContent pg = None \<Longrightarrow>
   extractTextFromArea (Some doc) area = ''Error extracting text''"
  by (simp add: extractTextFromArea_def)

lemma drag_rect_size:
  "rect_width (drag_rect sp cp) = \<bar>pos_x cp - pos_x sp\<bar>"
  "rect_height (drag_rect sp cp) = \<bar>pos_y cp - pos_y sp\<bar>"
  by (simp_all add: drag_rect_def)

text \<open>The handler run to its end is its first part followed at once by its second.\<close>

lemma handleMouseUp_split:
  "handleMouseUp props env st =
     (case handleMouseUp_begin props env st of
        (st', None) \<Rightarrow> (st', None)
      | (st', Some pend) \<Rightarrow> handleMouseUp_finish env pend st')"
  by (simp add: handleMouseUp_def handleMouseUp_begin_def handleMouseUp_finish_def Let_def
      split: bool.splits option.splits)

lemma press_and_move:
  assumes "isSelectionMode props" and "canvasRef props = Some cv"
  shows "handleMouseMove props x1 y1 (handleMouseDown props x0 y0 st0) =
     st0\<lparr>startPos := Some (getCanvasCoordinates (Some cv) x0 y0),
         currentPos := Some (getCanvasCoordinates (Some cv) x1 y1),
         isSelecting := True\<rparr>"
  using assms by (simp add: handleMouseMove_def handleMouseDown_def Let_def)

lemma diff_scaled: "(a - l) * k - (b - l) * k = (a - b) * (k::real)"
  by (simp add: algebra_simps)

lemma canvas_pixels:
  "pos_x (getCanvasCoordinates (Some cv) x1 y1) - pos_x (getCanvasCoordinates (Some cv) x0 y0)
     = (x1 - x0) * (canvas_width cv / bounding_width cv)"
  "pos_y (getCanvasCoordinates (Some cv) x1 y1) - pos_y (getCanvasCoordinates (Some cv) x0 y0)
     = (y1 - y0) * (canvas_height cv / bounding_height cv)"
  by (simp_all only: getCanvasCoordinates_def option.case pos.select_convs diff_scaled)

lemma handleMouseUp_emits_iff:
  "(snd (handleMouseUp props env st) \<noteq> None) =
     (\<exists>sp cp cv doc pg.
        isSelecting st \<and> startPos st = Some sp \<and> currentPos st = Some cp \<and>
        canvasRef props = Some cv \<and> pdfDoc props = Some doc \<and>
        getPage doc (currentPage props) = Some pg \<and>
        \<bar>pos_x cp - pos_x sp\<bar> > 10 \<and> \<bar>pos_y cp - pos_y sp\<bar> > 10)"
  by (auto simp: handleMouseUp_def Let_def drag_rect_size split: bool.splits option.splits)

text \<open>
  Claim C3 as stated fails in its "if" half: a press at the canvas origin and a move to
  \<open>(11, 11)\<close> give an 11 by 11 bounding box, and on a loaded document whose
  \<open>getPage\<close> rejects the release emits no area.
\<close>

theorem gate_without_page_counterexample:
  "rect_width (drag_rect \<lparr>pos_x = 0, pos_y = 0\<rparr> \<lparr>pos_x = 11, pos_y = 11\<rparr>) > 10 \<and>
   rect_height (drag_rect \<lparr>pos_x = 0, pos_y = 0\<rparr> \<lparr>pos_x = 11, pos_y = 11\<rparr>) > 10 \<and>
   handleMouseMove (sample_props (Some failing_doc) 1 None) 11 11
     (handleMouseDown (sample_props (Some failing_doc) 1 None) 0 0 idle) = dragging 0 0 11 11 \<and>
   snd (handleMouseUp (sample_props (Some failing_doc) 1 None) sample_env
          (handleMouseMove (sample_props (Some failing_doc) 1 None) 11 11
             (handleMouseDown (sample_props (Some failing_doc) 1 None) 0 0 idle))) = None"
  by (simp add: handleMouseUp_def handleMouseMove_def handleMouseDown_def sample_props_def
      failing_doc_def idle_def dragging_def drag_rect_def getCanvasCoordinates_def
      sample_canvas_def Let_def)

text \<open>
  Claim C3, amended. A release emits an area if and only if a drag is in progress over the
  mounted canvas, its bounding box is wider than 10 and higher than 10, the document is
  loaded and the page lookup resolves. The box is measured in canvas pixels, before any
  conversion to points: for a press at client \<open>(x0, y0)\<close> and a move to
  \<open>(x1, y1)\<close> in selection mode its sides are \<open>|x1 - x0|\<close> and
  \<open>|y1 - y0|\<close> scaled by the canvas's backing-store size over its displayed size.
\<close>

theorem minimum_size_gate:
  "((snd (handleMouseUp props env st) \<noteq> None) =
     (\<exists>sp cp cv doc pg.
        isSelecting st \<and> startPos st = Some sp \<and> currentPos st = Some cp \<and>
        canvasRef props = Some cv \<and> pdfDoc props = Some doc \<and>
        getPage doc (currentPage props) = Some pg \<and>
        \<bar>pos_x cp - pos_x sp\<bar> > 10 \<and> \<bar>pos_y cp - pos_y sp\<bar> > 10)) \<and>
   (isSelectionMode props \<and> canvasRef props = Some cv \<longrightarrow>
     (snd (handleMouseUp props env
             (handleMouseMove props x1 y1 (handleMouseDown props x0 y0 st0))) \<noteq> None) =
     ((\<exists>doc pg. pdfDoc props = Some doc \<and> getPage doc (currentPage props) = Some pg) \<and>
      \<bar>(x1 - x0) * (canvas_width cv / bounding_width cv)\<bar> > 10 \<and>
      \<bar>(y1 - y0) * (canvas_height cv / bounding_height cv)\<bar> > 10))"
proof (intro conjI impI)
  show "(snd (handleMouseUp props env st) \<noteq> None) =
     (\<exists>sp cp cv doc pg.
        isSelecting st \<and> startPos st = Some sp \<and> currentPos st = Some cp \<and>
        canvasRef props = Some cv \<and> pdfDoc props = Some doc \<and>
        getPage doc (currentPage props) = Some pg \<and>
        \<bar>pos_x cp - pos_x sp\<bar> > 10 \<and> \<bar>pos_y cp - pos_y sp\<bar> > 10)"
    by (rule handleMouseUp_emits_iff)
next
  assume a: "isSelectionMode props \<and> canvasRef props = Some cv"
  define st where "st = handleMouseMove props x1 y1 (handleMouseDown props x0 y0 st0)"
  have st: "isSelecting st" "startPos st = Some (getCanvasCoordinates (Some cv) x0 y0)"
    "currentPos st = Some (getCanvasCoordinates (Some cv) x1 y1)"
    using a by (simp_all add: st_def press_and_move)
  show "(snd (handleMouseUp props env
             (handleMouseMove props x1 y1 (handleMouseDown props x0 y0 st0))) \<noteq> None) =
     ((\<exists>doc pg. pdfDoc props = Some doc \<and> getPage doc (currentPage props) = Some pg) \<and>
      \<bar>(x1 - x0) * (canvas_width cv / bounding_width cv)\<bar> > 10 \<and>
      \<bar>(y1 - y0) * (canvas_height cv / bounding_height cv)\<bar> > 10)"
    unfolding st_def[symmetric] handleMouseUp_emits_iff[of props env st]
    using a st by (auto simp: canvas_pixels)
qed

text \<open>
  On a canvas shown at its own size, 11 by 11 emits and 49 by 3 does not. On a canvas with
  two canvas pixels to the client pixel, a move by 6 client pixels (12 canvas pixels)
  emits and a move by 5 (exactly 10) does not.
\<close>

theorem minimum_size_gate_witness:
  "snd (handleMouseUp (sample_props (Some sample_doc) 1 None) sample_env
          (handleMouseMove (sample_props (Some sample_doc) 1 None) 11 11
             (handleMouseDown (sample_props (Some sample_doc) 1 None) 0 0 idle))) \<noteq> None \<and>
   snd (handleMouseUp (sample_props (Some sample_doc) 1 None) sample_env
          (handleMouseMove (sample_props (Some sample_doc) 1 None) 49 3
             (handleMouseDown (sample_props (Some sample_doc) 1 None) 0 0 idle))) = None \<and>
   snd (handleMouseUp ((sample_props (Some sample_doc) 1 None)\<lparr>canvasRef := Some dense_canvas\<rparr>)
          sample_env
          (handleMouseMove ((sample_props (Some sample_doc) 1 None)\<lparr>canvasRef := Some dense_canvas\<rparr>) 106 56
             (handleMouseDown ((sample_props (Some sample_doc) 1 None)\<lparr>canvasRef := Some dense_canvas\<rparr>)
                100 50 idle))) \<noteq> None \<and>
   snd (handleMouseUp ((sample_props (Some sample_doc) 1 None)\<lparr>canvasRef := Some dense_canvas\<rparr>)
          sample_env
          (handleMouseMove ((sample_props (Some sample_doc) 1 None)\<lparr>canvasRef := Some dense_canvas\<rparr>) 105 55
             (handleMouseDown ((sample_props (Some sample_doc) 1 None)\<lparr>canvasRef := Some dense_canvas\<rparr>)
                100 50 idle))) = None"
proof -
  define props where "props = sample_props (Some sample_doc) 1 None"
  define dense where "dense = props\<lparr>canvasRef := Some dense_canvas\<rparr>"
  have p: "isSelectionMode props \<and> canvasRef props = Some sample_canvas"
    "isSelectionMode dense \<and> canvasRef dense = Some dense_canvas"
    by (simp_all add: props_def dense_def sample_props_def)
  have d: "\<exists>doc pg. pdfDoc props = Some doc \<and> getPage doc (currentPage props) = Some pg"
    "\<exists>doc pg. pdfDoc dense = Some doc \<and> getPage doc (currentPage dense) = Some pg"
    by (simp_all add: props_def dense_def sample_props_def sample_doc_def single_page_doc_def)
  have "snd (handleMouseUp props sample_env
          (handleMouseMove props 11 11 (handleMouseDown props 0 0 idle))) \<noteq> None"
    using minimum_size_gate[of props sample_env idle sample_canvas 11 11 0 0 idle] p(1) d(1)
    by (simp add: sample_canvas_def)
  moreover have "snd (handleMouseUp props sample_env
          (handleMouseMove props 49 3 (handleMouseDown props 0 0 idle))) = None"
    using minimum_size_gate[of props sample_env idle sample_canvas 49 3 0 0 idle] p(1) d(1)
    by (simp add: sample_canvas_def)
  moreover have "snd (handleMouseUp dense sample_env
          (handleMouseMove dense 106 56 (handleMouseDown dense 100 50 idle))) \<noteq> None"
    using minimum_size_gate[of dense sample_env idle dense_canvas 106 56 100 50 idle] p(2) d(2)
    by (simp add: dense_canvas_def)
  moreover have "snd (handleMouseUp dense sample_env
          (handleMouseMove dense 105 55 (handleMouseDown dense 100 50 idle))) = None"
    using minimum_size_gate[of dense sample_env idle dense_canvas 105 55 100 50 idle] p(2) d(2)
    by (simp add: dense_canvas_def)
  ultimately show ?thesis
    unfolding dense_def props_def by blast
qed

subsection \<open>Failing lookups\<close>

lemma extraction_area_page:
  "area_page (extraction_area pv (toPdfPosition pv cv r n)) = n"
  by (simp add: extraction_area_def toPdfPosition_def)

text \<open>
  Claim C4 as stated fails where the page lookup of \<open>handleMouseUp\<close> is rejected: an
  11 by 11 drag on a loaded document whose \<open>getPage\<close> rejects emits no area, although
  the screenshot had been captured.
\<close>

theorem failed_page_lookup_counterexample:
  "snd (handleMouseUp (sample_props (Some failing_doc) 1 None) sample_env (dragging 0 0 11 11)) = None \<and>
   captureScreenshot (Some sample_canvas) sample_env
     (drag_rect \<lparr>pos_x = 0, pos_y = 0\<rparr> \<lparr>pos_x = 11, pos_y = 11\<rparr>) \<noteq> ''''"
  by (simp add: handleMouseUp_def sample_props_def failing_doc_def dragging_def drag_rect_def
      captureScreenshot_def sample_env_def sample_canvas_def Let_def)

text \<open>
  Claim C4, amended. For a drag that passes the gate with a loaded document: if the page
  lookup is rejected, the handler catches it, emits no area and resets the gesture; if the
  page lookup resolves, an area is emitted with the screenshot captured before the lookup
  and a non-empty text, which is \<open>Error extracting text\<close> when the text content
  cannot be read.
\<close>

theorem gesture_completion_failures:
  assumes "isSelecting st" and "startPos st = Some sp" and "currentPos st = Some cp"
    and "canvasRef props = Some cv"
    and "rect_width (drag_rect sp cp) > 10" and "rect_height (drag_rect sp cp) > 10"
    and "pdfDoc props = Some doc"
  shows "(getPage doc (currentPage props) = None \<longrightarrow>
            handleMouseUp props env st = (reset st, None)) \<and>
         (\<forall>pg. getPage doc (currentPage props) = Some pg \<longrightarrow>
            (\<exists>a. handleMouseUp props env st = (reset st, Some a) \<and>
                 screenshot a = captureScreenshot (canvasRef props) env (drag_rect sp cp) \<and>
                 area_text a \<noteq> '''' \<and>
                 (getTextContent pg = None \<longrightarrow> area_text a = ''Error extracting text'')))"
proof (intro conjI impI allI)
  assume "getPage doc (currentPage props) = None"
  with assms show "handleMouseUp props env st = (reset st, None)"
    by (rule handleMouseUp_no_page)
next
  fix pg
  assume pg: "getPage doc (currentPage props) = Some pg"
  define area where "area = extraction_area (getViewport pg 1 None)
       (toPdfPosition (getViewport pg 1 None) (getViewport pg (scale props) (rotation props))
          (drag_rect sp cp) (currentPage props))"
  have ne: "extractTextFromArea (Some doc) area \<noteq> ''''"
    by (rule extract_nonempty)
  have un: "extractTextFromArea (Some doc) area = ''Error extracting text''"
    if "getTextContent pg = None"
    using pg that by (simp add: extract_unreadable area_def extraction_area_page)
  show "\<exists>a. handleMouseUp props env st = (reset st, Some a) \<and>
             screenshot a = captureScreenshot (canvasRef props) env (drag_rect sp cp) \<and>
             area_text a \<noteq> '''' \<and>
             (getTextContent pg = None \<longrightarrow> area_text a = ''Error extracting text'')"
    using handleMouseUp_emit[OF assms pg, of env] ne un assms(4)
    by (simp add: area_def)
qed

text \<open>A document whose page resolves and whose text content is rejected.\<close>

theorem gesture_completion_failures_witness:
  "map_option area_text (snd (handleMouseUp (sample_props (Some unreadable_doc) 1 None) sample_env
      (dragging 0 0 11 11))) = Some ''Error extracting text'' \<and>
   map_option screenshot (snd (handleMouseUp (sample_props (Some unreadable_doc) 1 None) sample_env
      (dragging 0 0 11 11))) = Some ''data:image/png;base64,iVBORw0KGgo=''"
proof -
  define props where "props = sample_props (Some unreadable_doc) 1 None"
  define pg where "pg = library_page 600 800 None"
  define st where "st = dragging 0 0 11 11"
  have s: "isSelecting st" "startPos st = Some \<lparr>pos_x = 0, pos_y = 0\<rparr>"
    "currentPos st = Some \<lparr>pos_x = 11, pos_y = 11\<rparr>"
    by (simp_all add: st_def dragging_def)
  have p: "canvasRef props = Some sample_canvas"
    "rect_width (drag_rect \<lparr>pos_x = 0, pos_y = 0\<rparr> \<lparr>pos_x = 11, pos_y = 11\<rparr>) > 10"
    "rect_height (drag_rect \<lparr>pos_x = 0, pos_y = 0\<rparr> \<lparr>pos_x = 11, pos_y = 11\<rparr>) > 10"
    "pdfDoc props = Some unreadable_doc"
    by (simp_all add: props_def sample_props_def drag_rect_def)
  have g: "getPage unreadable_doc (currentPage props) = Some pg" "getTextContent pg = None"
    by (simp_all add: props_def pg_def sample_props_def unreadable_doc_def single_page_doc_def
        library_page_def)
  obtain a where a: "handleMouseUp props sample_env st = (reset st, Some a)"
    "screenshot a = captureScreenshot (canvasRef props) sample_env
        (drag_rect \<lparr>pos_x = 0, pos_y = 0\<rparr> \<lparr>pos_x = 11, pos_y = 11\<rparr>)"
    "area_text a = ''Error extracting text''"
    using gesture_completion_failures[OF s p, of sample_env] g by blast
  have "screenshot a = ''data:image/png;base64,iVBORw0KGgo=''"
    unfolding a(2) by (simp add: p(1) captureScreenshot_def sample_env_def sample_canvas_def)
  then show ?thesis
    using a(1,3) unfolding props_def st_def by simp
qed

subsection \<open>Stored positions and the round trip\<close>

lemma sample_drag_rect:
  "drag_rect \<lparr>pos_x = 100, pos_y = 50\<rparr> \<lparr>pos_x = 300, pos_y = 150\<rparr>
      = \<lparr>rect_x = 100, rect_y = 50, rect_width = 200, rect_height = 100\<rparr>"
  by (simp add: drag_rect_def)

lemma sample_position:
  "map_option position
     (snd (handleMouseUp (sample_props (Some sample_doc) s rot) sample_env (dragging 100 50 300 150)))
   = Some (toPdfPosition (getViewport (library_page 600 800 (Some sample_items)) 1 None)
                    (getViewport (library_page 600 800 (Some sample_items)) s rot)
                    \<lparr>rect_x = 100, rect_y = 50, rect_width = 200, rect_height = 100\<rparr> 1)"
  using handleMouseUp_emit[of "dragging 100 50 300 150" "\<lparr>pos_x = 100, pos_y = 50\<rparr>"
        "\<lparr>pos_x = 300, pos_y = 150\<rparr>" "sample_props (Some sample_doc) s rot" sample_canvas
        sample_doc "library_page 600 800 (Some sample_items)" sample_env]
  by (simp add: sample_drag_rect dragging_def sample_props_def sample_doc_def single_page_doc_def)

lemma toCanvasRect_toPdfPosition:
  assumes "vp_width pv \<noteq> 0" and "vp_height pv \<noteq> 0"
    and "vp_width d \<noteq> 0" and "vp_height d \<noteq> 0"
  shows "toCanvasRect pv d (toPdfPosition pv d r n) = r"
  using assms by (simp add: toCanvasRect_def toPdfPosition_def)

lemma unrounded_conversions:
  "toPdfPosition_fl (\<lambda>x. x) = toPdfPosition" "toCanvasRect_fl (\<lambda>x. x) = toCanvasRect"
  by (simp_all add: fun_eq_iff toPdfPosition_fl_def toPdfPosition_def toCanvasRect_fl_def
      toCanvasRect_def)

text \<open>One more rounding after an error of \<open>k\<close>.\<close>

lemma rounding_step:
  fixes x y k e :: real
  assumes r: "\<forall>z. \<bar>rnd z - z\<bar> \<le> e * \<bar>z\<bar>" and e: "0 \<le> e" and k: "0 \<le> k"
    and y: "\<bar>y - x\<bar> \<le> k * \<bar>x\<bar>"
  shows "\<bar>rnd y - x\<bar> \<le> ((1 + k) * (1 + e) - 1) * \<bar>x\<bar>"
proof -
  have "\<bar>y\<bar> \<le> \<bar>x\<bar> + \<bar>y - x\<bar>" by simp
  then have "\<bar>y\<bar> \<le> (1 + k) * \<bar>x\<bar>" using y by (simp add: algebra_simps)
  then have "e * \<bar>y\<bar> \<le> e * ((1 + k) * \<bar>x\<bar>)" using e by (rule mult_left_mono)
  moreover have "\<bar>rnd y - y\<bar> \<le> e * \<bar>y\<bar>" using r by blast
  moreover have "\<bar>rnd y - x\<bar> \<le> \<bar>rnd y - y\<bar> + \<bar>y - x\<bar>" by simp
  ultimately have "\<bar>rnd y - x\<bar> \<le> e * ((1 + k) * \<bar>x\<bar>) + k * \<bar>x\<bar>" using y by linarith
  then show ?thesis by (simp add: algebra_simps)
qed

lemma scaled_error:
  fixes x y k c :: real
  assumes "\<bar>y - x\<bar> \<le> k * \<bar>x\<bar>"
  shows "\<bar>y * c - x * c\<bar> \<le> k * \<bar>x * c\<bar>" and "\<bar>y / c - x / c\<bar> \<le> k * \<bar>x / c\<bar>"
proof -
  have "\<bar>y * c - x * c\<bar> = \<bar>y - x\<bar> * \<bar>c\<bar>"
    by (simp add: left_diff_distrib[symmetric] abs_mult)
  also have "\<dots> \<le> k * \<bar>x\<bar> * \<bar>c\<bar>"
    using assms by (rule mult_right_mono) simp
  finally show "\<bar>y * c - x * c\<bar> \<le> k * \<bar>x * c\<bar>" by (simp add: abs_mult mult.assoc)
  have "\<bar>y / c - x / c\<bar> = \<bar>y - x\<bar> / \<bar>c\<bar>"
    by (simp add: diff_divide_distrib[symmetric])
  also have "\<dots> \<le> k * \<bar>x\<bar> / \<bar>c\<bar>"
    using assms by (rule divide_right_mono) simp
  finally show "\<bar>y / c - x / c\<bar> \<le> k * \<bar>x / c\<bar>" by simp
qed

lemma rounded_roundtrip:
  fixes x a b e :: real
  assumes r: "\<forall>z. \<bar>rnd z - z\<bar> \<le> e * \<bar>z\<bar>" and e: "0 \<le> e" and a: "a \<noteq> 0" and b: "b \<noteq> 0"
  shows "\<bar>rnd (rnd (rnd (rnd (x / a) * b) / b) * a) - x\<bar> \<le> ((1 + e) ^ 4 - 1) * \<bar>x\<bar>"
proof -
  define k1 where "k1 = (1 + 0) * (1 + e) - 1"
  define k2 where "k2 = (1 + k1) * (1 + e) - 1"
  define k3 where "k3 = (1 + k2) * (1 + e) - 1"
  define k4 where "k4 = (1 + k3) * (1 + e) - 1"
  have k: "0 \<le> k1" "0 \<le> k2" "0 \<le> k3"
    using e by (simp_all add: k1_def k2_def k3_def algebra_simps)
  have s1: "\<bar>rnd (x / a) - x / a\<bar> \<le> k1 * \<bar>x / a\<bar>"
    unfolding k1_def using rounding_step[OF r e, of 0 "x / a" "x / a"] by simp
  have "\<bar>rnd (x / a) * b - x / a * b\<bar> \<le> k1 * \<bar>x / a * b\<bar>"
    using s1 by (rule scaled_error)
  then have s2: "\<bar>rnd (rnd (x / a) * b) - x / a * b\<bar> \<le> k2 * \<bar>x / a * b\<bar>"
    unfolding k2_def using rounding_step[OF r e k(1)] by blast
  have "\<bar>rnd (rnd (x / a) * b) / b - x / a * b / b\<bar> \<le> k2 * \<bar>x / a * b / b\<bar>"
    using s2 by (rule scaled_error)
  then have "\<bar>rnd (rnd (x / a) * b) / b - x / a\<bar> \<le> k2 * \<bar>x / a\<bar>"
    using b by simp
  then have s3: "\<bar>rnd (rnd (rnd (x / a) * b) / b) - x / a\<bar> \<le> k3 * \<bar>x / a\<bar>"
    unfolding k3_def using rounding_step[OF r e k(2)] by blast
  have "\<bar>rnd (rnd (rnd (x / a) * b) / b) * a - x / a * a\<bar> \<le> k3 * \<bar>x / a * a\<bar>"
    using s3 by (rule scaled_error)
  then have "\<bar>rnd (rnd (rnd (x / a) * b) / b) * a - x\<bar> \<le> k3 * \<bar>x\<bar>"
    using a by simp
  then have "\<bar>rnd (rnd (rnd (rnd (x / a) * b) / b) * a) - x\<bar> \<le> k4 * \<bar>x\<bar>"
    unfolding k4_def using rounding_step[OF r e k(3)] by blast
  moreover have "k4 = (1 + e) ^ 4 - 1"
    by (simp add: k4_def k3_def k2_def k1_def power4_eq_xxxx algebra_simps)
  ultimately show ?thesis by simp
qed

lemma rounded_rect_roundtrip:
  assumes "\<forall>z. \<bar>rnd z - z\<bar> \<le> e * \<bar>z\<bar>" and "0 \<le> e"
    and "vp_width pv \<noteq> 0" and "vp_height pv \<noteq> 0"
    and "vp_width d \<noteq> 0" and "vp_height d \<noteq> 0"
  shows "within_tolerance ((1 + e) ^ 4 - 1) r
           (toCanvasRect_fl rnd pv d (toPdfPosition_fl rnd pv d r n))"
  using assms
  by (simp add: within_tolerance_def toCanvasRect_fl_def toPdfPosition_fl_def rounded_roundtrip)

text \<open>
  Claim C1. The viewer's configuration is its scale: it passes no rotation to the tool and
  asks for none in the redraw, so both conversions use the same two viewports. For every
  rectangle (viewports with no zero side) the conversion to points followed by the
  conversion back gives the rectangle itself; for every drag that becomes an area the
  stored position converts back to the drag's rectangle, and the redraw of the viewer
  that has received the area strokes and fills that rectangle last. That is for the
  arithmetic of the real numbers. With every quotient and product rounded, with relative
  error at most \<open>e\<close> (double arithmetic away from overflow and underflow, with
  \<open>e\<close> two to the power -53), each side of the rectangle that comes back is within
  the relative tolerance \<open>(1 + e)\<^sup>4 - 1\<close> of the side that went in.
\<close>

theorem roundtrip_same_configuration:
  assumes "isSelecting st" and "startPos st = Some sp" and "currentPos st = Some cp"
    and "rect_width (drag_rect sp cp) > 10" and "rect_height (drag_rect sp cp) > 10"
    and viewer: "viewer_canvasRef v = Some cv" "selectionCanvasRef v = Some True"
      "viewer_pdfDoc v = Some doc" "getPage doc (pageNumber v) = Some pg"
    and nonzero: "vp_width (getViewport pg 1 None) \<noteq> 0" "vp_height (getViewport pg 1 None) \<noteq> 0"
      "vp_width (getViewport pg (viewer_scale v) None) \<noteq> 0"
      "vp_height (getViewport pg (viewer_scale v) None) \<noteq> 0"
    and rounding: "0 \<le> e" "\<forall>z. \<bar>rnd z - z\<bar> \<le> e * \<bar>z\<bar>"
  shows "\<exists>a. snd (handleMouseUp (props_of v) env st) = Some a \<and>
           (\<forall>r n. toCanvasRect (getViewport pg 1 None) (getViewport pg (viewer_scale v) None)
                    (toPdfPosition (getViewport pg 1 None) (getViewport pg (viewer_scale v) None) r n)
                  = r) \<and>
           toCanvasRect (getViewport pg 1 None) (getViewport pg (viewer_scale v) None) (position a)
             = drag_rect sp cp \<and>
           map_option (last \<circ> stroked) (drawSelectionBoxes (handleAreaSelected a v))
             = Some (drag_rect sp cp) \<and>
           map_option (last \<circ> filled) (drawSelectionBoxes (handleAreaSelected a v))
             = Some (drag_rect sp cp) \<and>
           within_tolerance ((1 + e) ^ 4 - 1) (drag_rect sp cp)
             (toCanvasRect_fl rnd (getViewport pg 1 None) (getViewport pg (viewer_scale v) None)
                (toPdfPosition_fl rnd (getViewport pg 1 None) (getViewport pg (viewer_scale v) None)
                   (drag_rect sp cp) (pageNumber v)))"
proof -
  define pv where "pv = getViewport pg 1 None"
  define cur where "cur = getViewport pg (viewer_scale v) None"
  define p where "p = toPdfPosition pv cur (drag_rect sp cp) (pageNumber v)"
  have props: "canvasRef (props_of v) = Some cv" "pdfDoc (props_of v) = Some doc"
    "getPage doc (currentPage (props_of v)) = Some pg"
    using viewer by (simp_all add: props_of_def)
  obtain a where a: "snd (handleMouseUp (props_of v) env st) = Some a" and pa: "position a = p"
    using handleMouseUp_emit[OF assms(1-3) props(1) assms(4,5) props(2,3), of env]
    by (simp add: p_def pv_def cur_def props_of_def)
  have rt: "toCanvasRect pv cur p = drag_rect sp cp"
    unfolding p_def using nonzero
    by (intro toCanvasRect_toPdfPosition) (simp_all add: pv_def cur_def)
  have pg_a: "page (position a) = pageNumber v"
    by (simp add: pa p_def toPdfPosition_def)
  define w where "w = handleAreaSelected a v"
  have w: "viewer_canvasRef w = Some cv" "selectionCanvasRef w = Some True"
    "viewer_pdfDoc w = Some doc" "getPage doc (pageNumber w) = Some pg"
    using viewer by (simp_all add: w_def handleAreaSelected_def)
  define cpa where "cpa = filter (\<lambda>a. page (position a) = pageNumber w) (selectedAreas w)"
  have ops: "drawSelectionBoxes w =
     Some (ClearRect 0 0 (canvas_width cv) (canvas_height cv) #
           concat (map (draw_area pv cur (highlightedArea w)) cpa))"
    using drawSelectionBoxes_ops[OF w]
    by (simp add: pv_def cur_def cpa_def w_def handleAreaSelected_def)
  have f: "cpa = filter (\<lambda>a. page (position a) = pageNumber v) (selectedAreas v) @ [a]"
    using pg_a by (simp add: cpa_def w_def handleAreaSelected_def)
  have l: "last (map (\<lambda>a. toCanvasRect pv cur (position a)) cpa) = drag_rect sp cp"
    unfolding f by (simp add: pa rt)
  have "stroked (ClearRect 0 0 (canvas_width cv) (canvas_height cv) #
           concat (map (draw_area pv cur (highlightedArea w)) cpa))
        = map (\<lambda>a. toCanvasRect pv cur (position a)) cpa"
    by (simp add: stroked_draw)
  then have s: "map_option (last \<circ> stroked) (drawSelectionBoxes w) = Some (drag_rect sp cp)"
    using l by (simp add: ops)
  have "filled (ClearRect 0 0 (canvas_width cv) (canvas_height cv) #
           concat (map (draw_area pv cur (highlightedArea w)) cpa))
        = map (\<lambda>a. toCanvasRect pv cur (position a)) cpa"
    by (simp add: filled_draw)
  then have fl: "map_option (last \<circ> filled) (drawSelectionBoxes w) = Some (drag_rect sp cp)"
    using l by (simp add: ops)
  have tol: "within_tolerance ((1 + e) ^ 4 - 1) (drag_rect sp cp)
             (toCanvasRect_fl rnd pv cur (toPdfPosition_fl rnd pv cur (drag_rect sp cp) (pageNumber v)))"
    using rounding(2,1) nonzero unfolding pv_def cur_def by (rule rounded_rect_roundtrip)
  have every: "toCanvasRect pv cur (toPdfPosition pv cur r n) = r" for r n
    using nonzero by (intro toCanvasRect_toPdfPosition) (simp_all add: pv_def cur_def)
  show ?thesis
    using a pa rt s fl tol every unfolding w_def pv_def cur_def by blast
qed

text \<open>Scale 2 on the 600 by 800 page, and a rounding that is off by one part in 1024.\<close>

lemma coarse_rounding_error: "\<forall>z. \<bar>coarse_rounding z - z\<bar> \<le> (1 / 1024) * \<bar>z\<bar>"
  by (simp add: coarse_rounding_def algebra_simps abs_mult)

theorem roundtrip_same_configuration_witness:
  "\<exists>a. snd (handleMouseUp (props_of (sample_viewer\<lparr>viewer_scale := 2\<rparr>)) sample_env
              (dragging 100 50 300 150)) = Some a \<and>
       map_option (last \<circ> stroked)
         (drawSelectionBoxes (handleAreaSelected a (sample_viewer\<lparr>viewer_scale := 2\<rparr>)))
       = Some \<lparr>rect_x = 100, rect_y = 50, rect_width = 200, rect_height = 100\<rparr> \<and>
       within_tolerance ((1 + 1 / 1024) ^ 4 - 1)
         \<lparr>rect_x = 100, rect_y = 50, rect_width = 200, rect_height = 100\<rparr>
         (toCanvasRect_fl coarse_rounding
            (getViewport (library_page 600 800 (Some sample_items)) 1 None)
            (getViewport (library_page 600 800 (Some sample_items)) 2 None)
            (toPdfPosition_fl coarse_rounding
               (getViewport (library_page 600 800 (Some sample_items)) 1 None)
               (getViewport (library_page 600 800 (Some sample_items)) 2 None)
               \<lparr>rect_x = 100, rect_y = 50, rect_width = 200, rect_height = 100\<rparr> 1))"
proof -
  define pg where "pg = library_page 600 800 (Some sample_items)"
  define st where "st = dragging 100 50 300 150"
  define v where "v = sample_viewer\<lparr>viewer_scale := 2\<rparr>"
  have s: "isSelecting st" "startPos st = Some \<lparr>pos_x = 100, pos_y = 50\<rparr>"
    "currentPos st = Some \<lparr>pos_x = 300, pos_y = 150\<rparr>"
    "rect_width (drag_rect \<lparr>pos_x = 100, pos_y = 50\<rparr> \<lparr>pos_x = 300, pos_y = 150\<rparr>) > 10"
    "rect_height (drag_rect \<lparr>pos_x = 100, pos_y = 50\<rparr> \<lparr>pos_x = 300, pos_y = 150\<rparr>) > 10"
    by (simp_all add: st_def dragging_def sample_drag_rect)
  have w: "viewer_canvasRef v = Some sample_canvas" "selectionCanvasRef v = Some True"
      "viewer_pdfDoc v = Some sample_doc" "getPage sample_doc (pageNumber v) = Some pg"
    by (simp_all add: v_def pg_def sample_viewer_def sample_doc_def single_page_doc_def)
  have g: "vp_width (getViewport pg 1 None) \<noteq> 0" "vp_height (getViewport pg 1 None) \<noteq> 0"
      "vp_width (getViewport pg (viewer_scale v) None) \<noteq> 0"
      "vp_height (getViewport pg (viewer_scale v) None) \<noteq> 0"
    by (simp_all add: v_def pg_def library_page_def)
  have e: "(0::real) \<le> 1 / 1024"
    by simp
  have v2: "viewer_scale v = 2" "pageNumber v = 1"
    by (simp_all add: v_def sample_viewer_def)
  show ?thesis
    using roundtrip_same_configuration[OF s w g e coarse_rounding_error, of sample_env]
    unfolding sample_drag_rect v2 unfolding v_def st_def pg_def by blast
qed

text \<open>
  Claim C2 as stated fails: on a 600 by 800 page at scale 1, a drag from \<open>(100, 50)\<close>
  to \<open>(300, 150)\<close> is stored with \<open>pdfY = 50\<close>, its distance from the top, and not
  with the flipped \<open>800 - 50 - 100 = 650\<close>.
\<close>

theorem stored_y_flip_counterexample:
  "map_option (pdfY \<circ> position)
     (snd (handleMouseUp (sample_props (Some sample_doc) 1 None) sample_env
             (dragging 100 50 300 150))) = Some 50 \<and>
   map_option (pdfY \<circ> position)
     (snd (handleMouseUp (sample_props (Some sample_doc) 1 None) sample_env
             (dragging 100 50 300 150)))
   \<noteq> Some (flipY (vp_height (getViewport (library_page 600 800 (Some sample_items)) 1 None))
             (rect_y (drag_rect \<lparr>pos_x = 100, pos_y = 50\<rparr> \<lparr>pos_x = 300, pos_y = 150\<rparr>))
             (rect_height (drag_rect \<lparr>pos_x = 100, pos_y = 50\<rparr> \<lparr>pos_x = 300, pos_y = 150\<rparr>)))"
  by (simp add: option.map_comp[symmetric] sample_position)
     (simp add: toPdfPosition_def library_page_def sample_drag_rect flipY_def)

text \<open>
  Claim C2, amended. The stored rectangle is the drag rectangle in unscaled units with the
  origin at the top left: no flip is applied to it. The one flip
  \<open>y' = viewportHeight - y - height\<close> is applied to the rectangle handed to text
  matching only, and the redraw scales the stored \<open>pdfY\<close> back without a flip.
\<close>

theorem stored_position_unflipped:
  assumes "isSelecting st" and "startPos st = Some sp" and "currentPos st = Some cp"
    and "canvasRef props = Some cv"
    and "rect_width (drag_rect sp cp) > 10" and "rect_height (drag_rect sp cp) > 10"
    and "pdfDoc props = Some doc" and "getPage doc (currentPage props) = Some pg"
  shows "\<exists>a. snd (handleMouseUp props env st) = Some a \<and>
     pdfY (position a) =
       rect_y (drag_rect sp cp) / vp_height (getViewport pg (scale props) (rotation props))
         * vp_height (getViewport pg 1 None) \<and>
     area_text a =
       (let txt = extractTextFromArea (Some doc)
                    \<lparr>area_x = pdfX (position a),
                     area_y = flipY (vp_height (getViewport pg 1 None)) (pdfY (position a))
                                (pdfHeight (position a)),
                     area_width = pdfWidth (position a),
                     area_height = pdfHeight (position a),
                     area_page = currentPage props\<rparr>
        in if txt = '''' then ''No text detected in selected area'' else txt) \<and>
     (\<forall>cur. rect_y (toCanvasRect (getViewport pg 1 None) cur (position a)) =
        pdfY (position a) / vp_height (getViewport pg 1 None) * vp_height cur)"
  using handleMouseUp_emit[OF assms, of env]
  by (simp add: Let_def extraction_area_def flipY_def toCanvasRect_def)
     (simp add: toPdfPosition_def)

text \<open>At scale 2 the same drag is stored with \<open>pdfY = 25\<close>.\<close>

theorem stored_position_unflipped_witness:
  "map_option (pdfY \<circ> position)
     (snd (handleMouseUp (sample_props (Some sample_doc) 2 None) sample_env
             (dragging 100 50 300 150))) = Some 25"
proof -
  define props where "props = sample_props (Some sample_doc) 2 None"
  define pg where "pg = library_page 600 800 (Some sample_items)"
  define st where "st = dragging 100 50 300 150"
  have s: "isSelecting st" "startPos st = Some \<lparr>pos_x = 100, pos_y = 50\<rparr>"
    "currentPos st = Some \<lparr>pos_x = 300, pos_y = 150\<rparr>"
    by (simp_all add: st_def dragging_def)
  have p: "canvasRef props = Some sample_canvas"
    "rect_width (drag_rect \<lparr>pos_x = 100, pos_y = 50\<rparr> \<lparr>pos_x = 300, pos_y = 150\<rparr>) > 10"
    "rect_height (drag_rect \<lparr>pos_x = 100, pos_y = 50\<rparr> \<lparr>pos_x = 300, pos_y = 150\<rparr>) > 10"
    "pdfDoc props = Some sample_doc" "getPage sample_doc (currentPage props) = Some pg"
    by (simp_all add: props_def pg_def sample_props_def sample_drag_rect sample_doc_def
        single_page_doc_def)
  obtain a where a: "snd (handleMouseUp props sample_env st) = Some a"
    "pdfY (position a) =
       rect_y (drag_rect \<lparr>pos_x = 100, pos_y = 50\<rparr> \<lparr>pos_x = 300, pos_y = 150\<rparr>)
         / vp_height (getViewport pg (scale props) (rotation props))
         * vp_height (getViewport pg 1 None)"
    using stored_position_unflipped[OF s p, of sample_env] by blast
  have "pdfY (position a) = 25"
    unfolding a(2) by (simp add: sample_drag_rect props_def pg_def sample_props_def library_page_def)
  then show ?thesis
    using a(1) unfolding props_def st_def by simp
qed

section \<open>Turning selection mode off during a drag\<close>

lemma step_unmounted:
  assumes "\<not> overlay_mounted (view s)" and "in_flight s = []"
    and "e \<noteq> ToggleSelectionMode"
  shows "step env s e = (s, None)"
  using assms by (cases e) (simp_all add: pointer_up_def settle_def)

lemma run_unmounted:
  assumes "\<not> overlay_mounted (view s)" and "in_flight s = []"
    and "\<forall>e \<in> set evs. e \<noteq> ToggleSelectionMode"
  shows "run env s evs = (s, [])"
  using assms by (induction evs) (simp_all add: step_unmounted)

lemma toggle_off_unmounts:
  assumes "viewer_isSelectionMode (view s)"
  shows "\<not> overlay_mounted (view (fst (step env s ToggleSelectionMode)))"
  using assms by (simp add: overlay_mounted_def)

text \<open>
  Claim C8 as stated fails: the toggle does not cancel the drag. After a press, a move of
  100 by 100 pixels, the toggle and a pointer-up, the tool is still selecting; and when
  the mode is turned on again, a pointer-up with no new press completes the old drag and
  emits its area.
\<close>

theorem stale_drag_counterexample:
  "isSelecting (tool (fst (run sample_env sample_system
      [MouseDown 0 0, MouseMove 100 100, ToggleSelectionMode, MouseUp]))) \<and>
   length (snd (run sample_env sample_system
      [MouseDown 0 0, MouseMove 100 100, ToggleSelectionMode, MouseUp,
       ToggleSelectionMode, MouseUp, Settle])) = 1"
  by (simp add: sample_system_def sample_viewer_def overlay_mounted_def props_of_def
      pointer_up_def settle_def handleMouseDown_def handleMouseMove_def
      handleMouseUp_begin_def handleMouseUp_finish_def getCanvasCoordinates_def
      sample_canvas_def idle_def drag_rect_def sample_doc_def single_page_doc_def Let_def)

text \<open>
  Claim C8, amended. Toggling selection mode off unmounts the element that receives the
  pointer events. With no handler awaiting, and whatever the gesture state (so whatever
  the size of a drag in progress): the toggle emits nothing, the pointer-up that follows
  emits nothing, and neither does any sequence of pointer events and handler completions
  while the mode stays off; the area list and the gesture state are left as they were.
\<close>

theorem toggle_off_suspends:
  assumes "viewer_isSelectionMode (view s)" and "in_flight s = []"
    and "\<forall>e \<in> set evs. e \<noteq> ToggleSelectionMode"
  shows "snd (step env s ToggleSelectionMode) = None \<and>
         snd (run env' (fst (step env s ToggleSelectionMode)) (MouseUp # evs)) = [] \<and>
         selectedAreas (view (fst (run env' (fst (step env s ToggleSelectionMode)) (MouseUp # evs))))
           = selectedAreas (view s) \<and>
         tool (fst (run env' (fst (step env s ToggleSelectionMode)) (MouseUp # evs))) = tool s"
proof -
  define t where "t = fst (step env s ToggleSelectionMode)"
  have u: "\<not> overlay_mounted (view t)"
    unfolding t_def using assms(1) by (rule toggle_off_unmounts)
  have same: "selectedAreas (view t) = selectedAreas (view s)" "tool t = tool s" "in_flight t = []"
    using assms(2) by (simp_all add: t_def)
  have "\<forall>e \<in> set (MouseUp # evs). e \<noteq> ToggleSelectionMode"
    using assms(3) by simp
  with u same(3) have "run env' t (MouseUp # evs) = (t, [])"
    by (rule run_unmounted)
  moreover have "snd (step env s ToggleSelectionMode) = None"
    by simp
  ultimately show ?thesis
    using same unfolding t_def by simp
qed

text \<open>
  A press and a move of 100 by 100 pixels: released at once it emits an area, released
  after the toggle it emits none.
\<close>

lemma sample_dragging:
  "fst (run sample_env sample_system [MouseDown 0 0, MouseMove 100 100])
     = \<lparr>view = sample_viewer, tool = dragging 0 0 100 100, in_flight = []\<rparr>"
  by (simp add: sample_system_def sample_viewer_def overlay_mounted_def props_of_def
      handleMouseDown_def handleMouseMove_def getCanvasCoordinates_def sample_canvas_def
      idle_def dragging_def Let_def)

lemma sample_release:
  "length (snd (run sample_env \<lparr>view = sample_viewer, tool = dragging 0 0 100 100, in_flight = []\<rparr>
      [MouseUp, Settle])) = 1"
  by (simp add: sample_viewer_def overlay_mounted_def props_of_def
      pointer_up_def settle_def handleMouseUp_begin_def handleMouseUp_finish_def
      dragging_def drag_rect_def sample_doc_def single_page_doc_def Let_def)

theorem toggle_off_suspends_witness:
  "snd (run sample_env
          (fst (step sample_env
                  (fst (run sample_env sample_system [MouseDown 0 0, MouseMove 100 100]))
                  ToggleSelectionMode))
          [MouseUp, MouseLeave, Settle]) = [] \<and>
   length (snd (run sample_env
          (fst (run sample_env sample_system [MouseDown 0 0, MouseMove 100 100]))
          [MouseUp, Settle])) = 1"
proof -
  define s where "s = fst (run sample_env sample_system [MouseDown 0 0, MouseMove 100 100])"
  have m: "viewer_isSelectionMode (view s)" "in_flight s = []"
    unfolding s_def sample_dragging by (simp_all add: sample_viewer_def)
  have n: "\<forall>e \<in> set [MouseLeave, Settle]. e \<noteq> ToggleSelectionMode"
    by simp
  have "snd (run sample_env (fst (step sample_env s ToggleSelectionMode))
          [MouseUp, MouseLeave, Settle]) = []"
    using toggle_off_suspends[OF m n, of sample_env sample_env] by blast
  moreover have "length (snd (run sample_env s [MouseUp, Settle])) = 1"
    unfolding s_def sample_dragging by (rule sample_release)
  ultimately show ?thesis unfolding s_def by blast
qed

text \<open>
  Two releases before the first handler has finished (a pointer-up and the pointer leaving
  the surface) both pass the guard, and each emits an area when it finishes.
\<close>

lemma overlapping_handlers:
  "length (snd (run sample_env sample_system
      [MouseDown 0 0, MouseMove 100 100, MouseUp, MouseLeave, Settle, Settle])) = 2"
  by (simp add: sample_system_def sample_viewer_def overlay_mounted_def props_of_def
      pointer_up_def settle_def handleMouseDown_def handleMouseMove_def
      handleMouseUp_begin_def handleMouseUp_finish_def getCanvasCoordinates_def
      sample_canvas_def idle_def drag_rect_def sample_doc_def single_page_doc_def
      handleAreaSelected_def reset_def Let_def)

end
